theory Spec2Isabelle
  imports Main "HOL-Library.Word"
begin

section \<open>Errors and buffers\<close>

text \<open>
  The exceptions the handlers can raise. \<open>RangeError\<close> is what Node's Buffer methods throw
  for a value or offset out of range, \<open>TypeError\<close> and \<open>SyntaxError\<close> are the language's
  own, \<open>URIError\<close> is \<open>encodeURIComponent\<close>'s, and the remaining ones are the
  \<open>new Error(...)\<close> values the source throws itself and a request that rejects.
\<close>

datatype error =
    RangeError
  | TypeError
  | SyntaxError
  | URIError
  | FetchFailed
  | MissingConfig
  | HttpError
  | EmptyResult

definition bindE :: "error + 'a \<Rightarrow> ('a \<Rightarrow> error + 'b) \<Rightarrow> error + 'b" where
  "bindE m f = (case m of Inl e \<Rightarrow> Inl e | Inr x \<Rightarrow> f x)"

type_synonym byte = "8 word"
type_synonym buffer = "byte list"

text \<open>
  \<open>Buffer.alloc(size)\<close>: a zero-filled buffer; Node refuses a size above its
  \<open>buffer.constants.MAX_LENGTH\<close>, which depends on the Node version and is a parameter here.
\<close>

definition alloc :: "nat \<Rightarrow> nat \<Rightarrow> error + buffer" where
  "alloc kMaxLength n =
     (if n > kMaxLength then Inl RangeError else Inr (replicate n 0))"

definition ascii_bytes :: "string \<Rightarrow> buffer" where
  "ascii_bytes s = map (\<lambda>c. of_nat (of_char c)) s"

text \<open>
  \<open>buf.write(string, offset)\<close> for an ASCII string: the offset must lie in the buffer
  (\<open>0 .. length\<close>), and only the bytes that fit the remaining room are written. Node hands
  the remaining room to its native writer as a 32-bit signed integer: the room is taken
  modulo \<open>2^32\<close>, \<open>-1\<close> there means no limit, and any other negative room writes nothing.
  For a buffer of less than \<open>2^31\<close> bytes the room is the true one.
\<close>

definition int32 :: "nat \<Rightarrow> int" where
  "int32 n = (let m = int n mod 4294967296 in if m \<ge> 2147483648 then m - 4294967296 else m)"

definition written :: "nat \<Rightarrow> nat \<Rightarrow> nat" where
  "written room len =
     (let r = int32 room
      in if r = -1 then min len room else if r < 0 then 0 else min len (nat r))"

definition buffer_write :: "buffer \<Rightarrow> string \<Rightarrow> nat \<Rightarrow> error + buffer" where
  "buffer_write buf s offset =
     (if offset > length buf then Inl RangeError
      else let n = written (length buf - offset) (length s)
           in Inr (take offset buf @ take n (ascii_bytes s) @ drop (offset + n) buf))"

text \<open>
  \<open>buf.writeUInt32LE(value, offset)\<close> and \<open>buf.writeUInt16LE(value, offset)\<close>: Node first
  checks the value against the range of the field, then that the field lies in the buffer,
  and throws otherwise; then it stores the bytes, least significant first.
\<close>

definition writeUInt32LE :: "buffer \<Rightarrow> int \<Rightarrow> nat \<Rightarrow> error + buffer" where
  "writeUInt32LE buf v offset =
     (if v > 4294967295 \<or> v < 0 then Inl RangeError
      else if length buf < offset + 4 then Inl RangeError
      else Inr (take offset buf
                @ [word_of_int v, word_of_int (v div 256),
                   word_of_int (v div 65536), word_of_int (v div 16777216)]
                @ drop (offset + 4) buf))"

definition writeUInt16LE :: "buffer \<Rightarrow> int \<Rightarrow> nat \<Rightarrow> error + buffer" where
  "writeUInt16LE buf v offset =
     (if v > 65535 \<or> v < 0 then Inl RangeError
      else if length buf < offset + 2 then Inl RangeError
      else Inr (take offset buf
                @ [word_of_int v, word_of_int (v div 256)]
                @ drop (offset + 2) buf))"

text \<open>
  \<open>source.copy(target, targetStart)\<close>: copies as much of the source as fits into the target
  from \<open>targetStart\<close> on; nothing when \<open>targetStart\<close> is at or past the end.
\<close>

definition buffer_copy :: "buffer \<Rightarrow> buffer \<Rightarrow> nat \<Rightarrow> buffer" where
  "buffer_copy source target targetStart =
     (if targetStart \<ge> length target then target
      else let n = min (length source) (length target - targetStart)
           in take targetStart target @ take n source @ drop (targetStart + n) target)"

text \<open>Reading a little-endian unsigned field back, as a decoder of the container does.\<close>

definition readUInt32LE :: "buffer \<Rightarrow> nat \<Rightarrow> int" where
  "readUInt32LE buf offset =
     uint (buf ! offset) + 256 * uint (buf ! (offset + 1))
     + 65536 * uint (buf ! (offset + 2)) + 16777216 * uint (buf ! (offset + 3))"

definition readUInt16LE :: "buffer \<Rightarrow> nat \<Rightarrow> int" where
  "readUInt16LE buf offset = uint (buf ! offset) + 256 * uint (buf ! (offset + 1))"

definition slice :: "buffer \<Rightarrow> nat \<Rightarrow> nat \<Rightarrow> buffer" where
  "slice buf from until = take (until - from) (drop from buf)"

section \<open>The PCM-to-WAV encoder\<close>

text \<open>
  \<open>pcm16ToWavBuffer(pcmBuffer, { sampleRate = 16000, numChannels = 1 } = {})\<close> of
  \<open>api/todo-from-speech.js\<close> and, with the same text, of \<open>api/pocket-ai.js\<close>. An option
  that is absent is \<open>None\<close> and takes its default. Sample rate and channel count are the
  integer-valued numbers; \<open>(x * 16) / 8\<close> is exact on them.
\<close>

definition defaultTo :: "'a \<Rightarrow> 'a option \<Rightarrow> 'a" where
  "defaultTo d opt = (case opt of None \<Rightarrow> d | Some v \<Rightarrow> v)"

definition pcm16ToWavBuffer :: "nat \<Rightarrow> buffer \<Rightarrow> int option \<Rightarrow> int option \<Rightarrow> error + buffer" where
  "pcm16ToWavBuffer kMaxLength pcmBuffer sampleRateOpt numChannelsOpt =
     (let sampleRate = defaultTo 16000 sampleRateOpt;
          numChannels = defaultTo 1 numChannelsOpt;
          bitsPerSample = 16;
          byteRate = (sampleRate * numChannels * bitsPerSample) div 8;
          blockAlign = (numChannels * bitsPerSample) div 8;
          wavHeaderSize = 44;
          dataSize = length pcmBuffer
      in bindE (alloc kMaxLength (wavHeaderSize + dataSize)) (\<lambda>buffer.
         bindE (buffer_write buffer ''RIFF'' 0) (\<lambda>buffer.
         bindE (writeUInt32LE buffer (36 + int dataSize) 4) (\<lambda>buffer.
         bindE (buffer_write buffer ''WAVE'' 8) (\<lambda>buffer.
         bindE (buffer_write buffer ''fmt '' 12) (\<lambda>buffer.
         bindE (writeUInt32LE buffer 16 16) (\<lambda>buffer.
         bindE (writeUInt16LE buffer 1 20) (\<lambda>buffer.
         bindE (writeUInt16LE buffer numChannels 22) (\<lambda>buffer.
         bindE (writeUInt32LE buffer sampleRate 24) (\<lambda>buffer.
         bindE (writeUInt32LE buffer byteRate 28) (\<lambda>buffer.
         bindE (writeUInt16LE buffer blockAlign 32) (\<lambda>buffer.
         bindE (writeUInt16LE buffer bitsPerSample 34) (\<lambda>buffer.
         bindE (buffer_write buffer ''data'' 36) (\<lambda>buffer.
         bindE (writeUInt32LE buffer (int dataSize) 40) (\<lambda>buffer.
         Inr (buffer_copy pcmBuffer buffer wavHeaderSize))))))))))))))))"

text \<open>
  \<open>pcm16ToWav(pcmBuffer, sampleRate)\<close> of the second \<open>api/pocket-ai.js\<close>: one channel, and
  the offset is a running variable.
\<close>

definition pcm16ToWav :: "nat \<Rightarrow> buffer \<Rightarrow> int \<Rightarrow> error + buffer" where
  "pcm16ToWav kMaxLength pcmBuffer sampleRate =
     (let numChannels = 1;
          bitsPerSample = 16;
          byteRate = (sampleRate * numChannels * bitsPerSample) div 8;
          blockAlign = (numChannels * bitsPerSample) div 8;
          dataSize = length pcmBuffer
      in bindE (alloc kMaxLength (44 + dataSize)) (\<lambda>buffer.
         let offset = 0 in
         bindE (buffer_write buffer ''RIFF'' offset) (\<lambda>buffer. let offset = offset + 4 in
         bindE (writeUInt32LE buffer (36 + int dataSize) offset) (\<lambda>buffer. let offset = offset + 4 in
         bindE (buffer_write buffer ''WAVE'' offset) (\<lambda>buffer. let offset = offset + 4 in
         bindE (buffer_write buffer ''fmt '' offset) (\<lambda>buffer. let offset = offset + 4 in
         bindE (writeUInt32LE buffer 16 offset) (\<lambda>buffer. let offset = offset + 4 in
         bindE (writeUInt16LE buffer 1 offset) (\<lambda>buffer. let offset = offset + 2 in
         bindE (writeUInt16LE buffer numChannels offset) (\<lambda>buffer. let offset = offset + 2 in
         bindE (writeUInt32LE buffer sampleRate offset) (\<lambda>buffer. let offset = offset + 4 in
         bindE (writeUInt32LE buffer byteRate offset) (\<lambda>buffer. let offset = offset + 4 in
         bindE (writeUInt16LE buffer blockAlign offset) (\<lambda>buffer. let offset = offset + 2 in
         bindE (writeUInt16LE buffer bitsPerSample offset) (\<lambda>buffer. let offset = offset + 2 in
         bindE (buffer_write buffer ''data'' offset) (\<lambda>buffer. let offset = offset + 4 in
         bindE (writeUInt32LE buffer (int dataSize) offset) (\<lambda>buffer. let offset = offset + 4 in
         Inr (buffer_copy pcmBuffer buffer offset))))))))))))))))"

text \<open>
  The header as the table of the contract lays it out, field after field, and the condition
  under which every field accepts its value.
\<close>

definition le32 :: "int \<Rightarrow> buffer" where
  "le32 v = [word_of_int v, word_of_int (v div 256),
             word_of_int (v div 65536), word_of_int (v div 16777216)]"

definition le16 :: "int \<Rightarrow> buffer" where
  "le16 v = [word_of_int v, word_of_int (v div 256)]"

definition wav_header :: "int \<Rightarrow> int \<Rightarrow> int \<Rightarrow> buffer" where
  "wav_header dataSize sampleRate numChannels =
     ascii_bytes ''RIFF'' @ le32 (36 + dataSize) @ ascii_bytes ''WAVE''
     @ ascii_bytes ''fmt '' @ le32 16 @ le16 1 @ le16 numChannels @ le32 sampleRate
     @ le32 (sampleRate * numChannels * 2) @ le16 (numChannels * 2) @ le16 16
     @ ascii_bytes ''data'' @ le32 dataSize"

text \<open>
  What a write of a string leaves in a zeroed field with the given remaining room, and the
  header with the four strings as they are written for a payload of \<open>n\<close> bytes.
\<close>

definition magic :: "nat \<Rightarrow> string \<Rightarrow> buffer" where
  "magic room s =
     take (written room (length s)) (ascii_bytes s)
     @ replicate (length s - written room (length s)) 0"

definition written_header :: "nat \<Rightarrow> int \<Rightarrow> int \<Rightarrow> buffer" where
  "written_header n sampleRate numChannels =
     magic (44 + n) ''RIFF'' @ le32 (36 + int n) @ magic (36 + n) ''WAVE''
     @ magic (32 + n) ''fmt '' @ le32 16 @ le16 1 @ le16 numChannels @ le32 sampleRate
     @ le32 (sampleRate * numChannels * 2) @ le16 (numChannels * 2) @ le16 16
     @ magic (8 + n) ''data'' @ le32 (int n)"

definition chunks :: "buffer list \<Rightarrow> buffer" where
  "chunks fs = concat fs"

definition encodable :: "nat \<Rightarrow> nat \<Rightarrow> int \<Rightarrow> int \<Rightarrow> bool" where
  "encodable kMaxLength dataSize sampleRate numChannels \<longleftrightarrow>
     44 + dataSize \<le> kMaxLength \<and> 36 + int dataSize \<le> 4294967295
     \<and> 0 \<le> numChannels \<and> numChannels \<le> 65535
     \<and> 0 \<le> sampleRate \<and> sampleRate \<le> 4294967295
     \<and> 0 \<le> sampleRate * numChannels * 2 \<and> sampleRate * numChannels * 2 \<le> 4294967295
     \<and> numChannels * 2 \<le> 65535"

section \<open>JavaScript values\<close>

text \<open>
  A string is its sequence of UTF-16 code units. The values are those a JSON text parses
  to, and \<open>undefined\<close>; a number is an integer-valued one. An object is the list of its own
  properties, looked up by name.
\<close>

type_synonym jsstring = "16 word list"

definition ascii :: "string \<Rightarrow> jsstring" where
  "ascii s = map (\<lambda>c. of_nat (of_char c)) s"

datatype jsval =
    JUndefined
  | JNull
  | JBool bool
  | JNum int
  | JStr jsstring
  | JArr "jsval list"
  | JObj "(jsstring \<times> jsval) list"

text \<open>\<open>!!v\<close>: the truthy values.\<close>

fun truthy :: "jsval \<Rightarrow> bool" where
  "truthy JUndefined = False"
| "truthy JNull = False"
| "truthy (JBool b) = b"
| "truthy (JNum n) = (n \<noteq> 0)"
| "truthy (JStr s) = (s \<noteq> [])"
| "truthy (JArr xs) = True"
| "truthy (JObj kvs) = True"

fun nullish :: "jsval \<Rightarrow> bool" where
  "nullish JUndefined = True"
| "nullish JNull = True"
| "nullish v = False"

text \<open>\<open>a || b\<close> and \<open>a ?? b\<close> on values already computed.\<close>

definition orElse :: "jsval \<Rightarrow> jsval \<Rightarrow> jsval" where
  "orElse a b = (if truthy a then a else b)"

definition coalesce :: "jsval \<Rightarrow> jsval \<Rightarrow> jsval" where
  "coalesce a b = (if nullish a then b else a)"

text \<open>
  \<open>v.name\<close> for the property names the handlers read (\<open>mode\<close>, \<open>audioBase64\<close>, \<open>audio\<close>,
  \<open>sessionId\<close>, \<open>DisplayText\<close>, \<open>Text\<close>, \<open>choices\<close>, \<open>message\<close>, \<open>messages\<close>, \<open>content\<close>,
  \<open>is_todo\<close>, \<open>title\<close>, \<open>when\<close>, \<open>notes\<close>): none of them is a member of a built-in
  prototype, so only an object's own property answers, and every other value that is not
  \<open>null\<close> or \<open>undefined\<close> gives \<open>undefined\<close>. Reading a property of \<open>null\<close> or \<open>undefined\<close>
  throws a TypeError.
\<close>

fun member :: "jsval \<Rightarrow> jsstring \<Rightarrow> jsval" where
  "member (JObj kvs) name = (case map_of kvs name of None \<Rightarrow> JUndefined | Some v \<Rightarrow> v)"
| "member v name = JUndefined"

definition getMember :: "jsval \<Rightarrow> jsstring \<Rightarrow> error + jsval" where
  "getMember v name = (if nullish v then Inl TypeError else Inr (member v name))"

text \<open>\<open>v[0]\<close> on a value that is not \<open>null\<close> or \<open>undefined\<close>.\<close>

fun elem0 :: "jsval \<Rightarrow> jsval" where
  "elem0 (JArr []) = JUndefined"
| "elem0 (JArr (x # xs)) = x"
| "elem0 (JStr []) = JUndefined"
| "elem0 (JStr (c # cs)) = JStr [c]"
| "elem0 (JObj kvs) = member (JObj kvs) (ascii ''0'')"
| "elem0 v = JUndefined"

text \<open>\<open>String.prototype.trim\<close>: strips white space and line terminators at both ends.\<close>

definition isWhiteSpace :: "16 word \<Rightarrow> bool" where
  "isWhiteSpace c \<longleftrightarrow>
     c \<in> set [0x9, 0xA, 0xB, 0xC, 0xD, 0x20, 0xA0, 0x1680, 0x2000, 0x2001, 0x2002, 0x2003,
              0x2004, 0x2005, 0x2006, 0x2007, 0x2008, 0x2009, 0x200A, 0x2028, 0x2029,
              0x202F, 0x205F, 0x3000, 0xFEFF]"

definition trim :: "jsstring \<Rightarrow> jsstring" where
  "trim s = rev (dropWhile isWhiteSpace (rev (dropWhile isWhiteSpace s)))"

text \<open>
  \<open>v.trim()\<close> on a value that is not \<open>null\<close> or \<open>undefined\<close>: only a string has the method;
  on any other value \<open>v.trim\<close> is not a function and the call throws a TypeError.
\<close>

fun callTrim :: "jsval \<Rightarrow> error + jsstring" where
  "callTrim (JStr s) = Inr (trim s)"
| "callTrim v = Inl TypeError"

definition startsWith :: "jsstring \<Rightarrow> jsstring \<Rightarrow> bool" where
  "startsWith s pat \<longleftrightarrow> take (length pat) s = pat"

fun indexOf :: "jsstring \<Rightarrow> jsstring \<Rightarrow> int" where
  "indexOf [] pat = (if pat = [] then 0 else -1)"
| "indexOf (c # cs) pat =
     (if startsWith (c # cs) pat then 0
      else let r = indexOf cs pat in if r < 0 then -1 else r + 1)"

fun lastIndexOf :: "jsstring \<Rightarrow> jsstring \<Rightarrow> int" where
  "lastIndexOf [] pat = (if pat = [] then 0 else -1)"
| "lastIndexOf (c # cs) pat =
     (let r = lastIndexOf cs pat
      in if r \<ge> 0 then r + 1 else if startsWith (c # cs) pat then 0 else -1)"

text \<open>\<open>s.substring(a, b)\<close>: both ends are clamped to the string and swapped when out of order.\<close>

definition substring :: "jsstring \<Rightarrow> int \<Rightarrow> int \<Rightarrow> jsstring" where
  "substring s a b =
     (let a' = nat (max 0 (min a (int (length s))));
          b' = nat (max 0 (min b (int (length s))));
          lo = min a' b'; hi = max a' b'
      in take (hi - lo) (drop lo s))"

text \<open>
  A template literal converts the value to a string. That throws for an object with an own
  \<open>toString\<close> property (no value from JSON is callable, and \<open>Object.prototype.valueOf\<close>
  gives the object back), and for an array one of whose elements, other than \<open>null\<close>, throws
  in \<open>join\<close>. The string itself only feeds the request to the notes service.
\<close>

fun toStringThrows :: "jsval \<Rightarrow> bool" where
  "toStringThrows (JObj kvs) = (map_of kvs (ascii ''toString'') \<noteq> None)"
| "toStringThrows (JArr xs) = (\<exists>x \<in> set xs. toStringThrows x)"
| "toStringThrows v = False"

section \<open>The world of one request\<close>

text \<open>
  What a request meets outside the source: the platform (Node's maximum buffer length,
  \<open>JSON.parse\<close> with \<open>None\<close> for a SyntaxError, the base64 decoder of \<open>Buffer.from\<close>,
  \<open>encodeURIComponent\<close>), the environment variables (\<open>None\<close> when unset), and the
  services. \<open>fetch\<close> either rejects or gives a response, of which the source reads \<open>ok\<close>
  and \<open>json()\<close> (\<open>None\<close> when the body is not JSON and \<open>json()\<close> rejects) or, for the
  speech synthesis, \<open>arrayBuffer()\<close>. The request sent to a service is a function of the
  environment and of the arguments of the calling function, so the answer is given as a
  function of those arguments. The chat service is one service; the two handlers send it
  different prompts, hence the two functions \<open>fetch_openai\<close> and \<open>fetch_chat\<close>.
\<close>

datatype fetch_result = Rejected | Response (ok: bool) (json: "jsval option")

datatype audio_result = AudioRejected | AudioResponse bool "buffer option"

record notion_args =
  arg_title :: jsval
  arg_when :: jsval
  arg_notes :: jsval
  arg_sourceText :: jsstring
  arg_sessionId :: jsval

record world =
  kMaxLength :: nat
  JSON_parse :: "jsstring \<Rightarrow> jsval option"
  base64_decode :: "jsstring \<Rightarrow> buffer"
  AZURE_SPEECH_KEY :: "jsstring option"
  AZURE_SPEECH_REGION :: "jsstring option"
  AZURE_OPENAI_KEY :: "jsstring option"
  AZURE_OPENAI_ENDPOINT :: "jsstring option"
  AZURE_OPENAI_DEPLOYMENT :: "jsstring option"
  NOTION_API_KEY :: "jsstring option"
  NOTION_DATABASE_ID :: "jsstring option"
  fetch_stt :: "buffer \<Rightarrow> fetch_result"
  fetch_openai :: "jsstring \<Rightarrow> fetch_result"
  fetch_notion :: "notion_args \<Rightarrow> fetch_result"
  fetch_chat :: "jsval \<Rightarrow> fetch_result"
  fetch_tts :: "jsstring \<Rightarrow> audio_result"
  encodeURIComponent :: "jsval \<Rightarrow> error + jsstring"

text \<open>\<open>!process.env.X\<close>: the variable is unset or empty.\<close>

definition unset :: "jsstring option \<Rightarrow> bool" where
  "unset v \<longleftrightarrow> v = None \<or> v = Some []"

section \<open>Speech to text\<close>

text \<open>
  \<open>callAzureSpeechToText(wavBuffer)\<close> of \<open>api/todo-from-speech.js\<close>: the recognized text is
  \<open>data.DisplayText || data.Text || ''\<close>, trimmed.
\<close>

definition callAzureSpeechToText :: "world \<Rightarrow> buffer \<Rightarrow> error + jsstring" where
  "callAzureSpeechToText W wavBuffer =
     (if unset (AZURE_SPEECH_KEY W) \<or> unset (AZURE_SPEECH_REGION W) then Inl MissingConfig
      else case fetch_stt W wavBuffer of
        Rejected \<Rightarrow> Inl FetchFailed
      | Response res_ok res_json \<Rightarrow>
          if \<not> res_ok then Inl HttpError
          else (case res_json of
            None \<Rightarrow> Inl SyntaxError
          | Some data \<Rightarrow>
              bindE (getMember data (ascii ''DisplayText'')) (\<lambda>displayText.
              let recognizedText =
                    orElse (orElse displayText (member data (ascii ''Text''))) (JStr [])
              in callTrim recognizedText)))"

text \<open>
  \<open>callAzureSpeechToText(wavBuffer)\<close> of \<open>api/pocket-ai.js\<close>: the same request; an empty
  result is replaced by a fixed Japanese sentence (eleven code units, "an error occurred"),
  and nothing is trimmed.
\<close>

definition pocket_placeholder :: jsstring where
  "pocket_placeholder =
     [12456, 12521, 12540, 12364, 30330, 29983, 12375, 12414, 12375, 12383, 12290]"

definition pocket_callAzureSpeechToText :: "world \<Rightarrow> buffer \<Rightarrow> error + jsval" where
  "pocket_callAzureSpeechToText W wavBuffer =
     (if unset (AZURE_SPEECH_KEY W) \<or> unset (AZURE_SPEECH_REGION W) then Inl MissingConfig
      else case fetch_stt W wavBuffer of
        Rejected \<Rightarrow> Inl FetchFailed
      | Response res_ok res_json \<Rightarrow>
          if \<not> res_ok then Inl HttpError
          else (case res_json of
            None \<Rightarrow> Inl SyntaxError
          | Some data \<Rightarrow>
              bindE (getMember data (ascii ''DisplayText'')) (\<lambda>displayText.
              let recognizedText =
                    orElse (orElse displayText (member data (ascii ''Text''))) (JStr [])
              in Inr (if \<not> truthy recognizedText then JStr pocket_placeholder
                      else recognizedText))))"

section \<open>The TODO analyzer\<close>

text \<open>\<open>v?.rest\<close>: the rest of the chain is skipped when \<open>v\<close> is \<open>null\<close> or \<open>undefined\<close>.\<close>

definition optChain :: "jsval \<Rightarrow> (jsval \<Rightarrow> error + jsval) \<Rightarrow> error + jsval" where
  "optChain v rest = (if nullish v then Inr JUndefined else rest v)"

definition trimmed :: "jsval \<Rightarrow> error + jsval" where
  "trimmed v = bindE (callTrim v) (\<lambda>s. Inr (JStr s))"

text \<open>
  The reply of the chat service, as both \<open>callAzureOpenAITodoAnalyzer\<close> and
  \<open>callAzureOpenAIChat\<close> read it: \<open>data.choices?.[0]?.message?.content?.trim() ||
  data.choices?.[0]?.messages?.[0]?.content?.trim() || ''\<close>.

  \<open>todoReplyContent\<close> is the first part of \<open>callAzureOpenAITodoAnalyzer(text)\<close>, up to the
  reply text that is handed to \<open>JSON.parse\<close>: the configuration check, the request, the
  reply's content, the error for an empty content, and the removal of a Markdown code
  fence around the content.
\<close>

definition notTask :: jsval where
  "notTask = JObj [(ascii ''is_todo'', JBool False), (ascii ''title'', JNull),
                   (ascii ''when'', JNull), (ascii ''notes'', JNull)]"

definition fence :: jsstring where
  "fence = ascii ''```''"

definition stripFence :: "jsstring \<Rightarrow> jsstring" where
  "stripFence content =
     (if startsWith content fence then
        let firstNewline = indexOf content [10];
            lastFence = lastIndexOf content fence
        in if firstNewline \<ge> 0 \<and> lastFence > firstNewline
           then trim (substring content (firstNewline + 1) lastFence)
           else content
      else content)"

definition replyText :: "jsval \<Rightarrow> error + jsval" where
  "replyText data =
     bindE (bindE (getMember data (ascii ''choices'')) (\<lambda>choices.
            optChain choices (\<lambda>choices.
            optChain (elem0 choices) (\<lambda>choice.
            optChain (member choice (ascii ''message'')) (\<lambda>message.
            optChain (member message (ascii ''content'')) trimmed))))) (\<lambda>first.
     if truthy first then Inr first
     else bindE (bindE (getMember data (ascii ''choices'')) (\<lambda>choices.
                 optChain choices (\<lambda>choices.
                 optChain (elem0 choices) (\<lambda>choice.
                 optChain (member choice (ascii ''messages'')) (\<lambda>messages.
                 optChain (elem0 messages) (\<lambda>message.
                 optChain (member message (ascii ''content'')) trimmed))))))
          (\<lambda>second. Inr (orElse second (JStr []))))"

definition todoReplyContent :: "world \<Rightarrow> jsstring \<Rightarrow> error + jsstring" where
  "todoReplyContent W text =
     (if unset (AZURE_OPENAI_KEY W) \<or> unset (AZURE_OPENAI_ENDPOINT W)
         \<or> unset (AZURE_OPENAI_DEPLOYMENT W) then Inl MissingConfig
      else case fetch_openai W text of
        Rejected \<Rightarrow> Inl FetchFailed
      | Response res_ok res_json \<Rightarrow>
          if \<not> res_ok then Inl HttpError
          else (case res_json of
            None \<Rightarrow> Inl SyntaxError
          | Some data \<Rightarrow>
              bindE (replyText data) (\<lambda>content.
              if \<not> truthy content then Inl EmptyResult
              else (case content of
                JStr c \<Rightarrow> Inr (stripFence c)
              | _ \<Rightarrow> Inl TypeError))))"

text \<open>
  \<open>callAzureOpenAITodoAnalyzer(text)\<close>: the reply text is parsed; a SyntaxError of
  \<open>JSON.parse\<close> is caught and gives the "not a task" object; otherwise the four fields are
  read from the parsed value (which throws a TypeError when that value is \<open>null\<close>).
\<close>

definition callAzureOpenAITodoAnalyzer :: "world \<Rightarrow> jsstring \<Rightarrow> error + jsval" where
  "callAzureOpenAITodoAnalyzer W text =
     bindE (todoReplyContent W text) (\<lambda>content.
       case JSON_parse W content of
         None \<Rightarrow> Inr notTask
       | Some parsed \<Rightarrow>
           bindE (getMember parsed (ascii ''is_todo'')) (\<lambda>is_todo.
           Inr (JObj [(ascii ''is_todo'', JBool (truthy is_todo)),
                      (ascii ''title'', coalesce (member parsed (ascii ''title'')) JNull),
                      (ascii ''when'', coalesce (member parsed (ascii ''when'')) JNull),
                      (ascii ''notes'', coalesce (member parsed (ascii ''notes'')) JNull)])))"

section \<open>The write to the notes service\<close>

text \<open>
  \<open>postTodoToNotion({ title, when, notes, sourceText, sessionId })\<close>: without credentials
  it returns \<open>false\<close>. The page's \<open>properties\<close> are built without any conversion; the
  \<open>children\<close> put \<open>notes\<close> and \<open>sessionId\<close>, when truthy, into template literals, before
  the \<open>try\<close> block. Inside the \<open>try\<close> block, a request that rejects and a response that is
  not \<open>ok\<close> give \<open>false\<close>, a response that is \<open>ok\<close> gives \<open>true\<close>.
\<close>

definition childrenBuilt :: "notion_args \<Rightarrow> bool" where
  "childrenBuilt args \<longleftrightarrow>
     \<not> (truthy (arg_notes args) \<and> toStringThrows (arg_notes args))
     \<and> \<not> (truthy (arg_sessionId args) \<and> toStringThrows (arg_sessionId args))"

definition postTodoToNotion :: "world \<Rightarrow> notion_args \<Rightarrow> error + bool" where
  "postTodoToNotion W args =
     (if unset (NOTION_API_KEY W) \<or> unset (NOTION_DATABASE_ID W) then Inr False
      else if \<not> childrenBuilt args then Inl TypeError
      else case fetch_notion W args of
        Rejected \<Rightarrow> Inr False
      | Response res_ok res_json \<Rightarrow> if \<not> res_ok then Inr False else Inr True)"

section \<open>The TODO-extraction handler\<close>

text \<open>
  The handler exported by \<open>api/todo-from-speech.js\<close>. A response is a status with the
  JSON body given to \<open>res.json\<close>, or (from the spoken-reply handler) status 200 with the
  audio and the headers \<open>X-Recognized-Text\<close> and \<open>X-Reply-Text\<close>; the \<open>catch\<close> block
  answers 500 with a body made from the error. Beside the response, the model returns the
  calls of the service functions in the order they were made.
\<close>

record request =
  req_method :: jsstring
  req_body :: jsval

datatype response =
    Json nat jsval
  | Wav buffer jsstring jsstring
  | InternalServerError error

datatype call =
    SpeechToText buffer
  | TodoAnalyzer jsstring
  | PostToNotion notion_args
  | ChatCompletion jsval
  | TextToSpeech jsval

datatype audio_request = Reply response | Audio jsstring jsval

definition missingAudioMessage :: jsstring where
  "missingAudioMessage =
     ascii ''audioBase64 (Base64 PCM) ''
     @ [12364, 25351, 23450, 12373, 12428, 12390, 12356, 12414, 12379, 12435, 12290]"

text \<open>
  The first statements of the \<open>try\<close> block: the body (parsed when it is a string), the
  mode, the audio field and the session identifier.
\<close>

definition readRequest :: "world \<Rightarrow> request \<Rightarrow> error + audio_request" where
  "readRequest W req =
     bindE (case req_body req of
              JStr s \<Rightarrow> (case JSON_parse W (if s = [] then ascii ''{}'' else s) of
                           None \<Rightarrow> Inl SyntaxError
                         | Some b \<Rightarrow> Inr b)
            | b \<Rightarrow> Inr (orElse b (JObj []))) (\<lambda>body.
     bindE (getMember body (ascii ''mode'')) (\<lambda>mode.
     let mode = orElse mode (JStr (ascii ''utterance'')) in
     if mode \<noteq> JStr (ascii ''utterance'')
     then Inr (Reply (Json 400 (JObj [(ascii ''error'', JStr (ascii ''Unsupported mode'')),
                                      (ascii ''mode'', mode)])))
     else
       let base64 = orElse (orElse (member body (ascii ''audioBase64''))
                                   (member body (ascii ''audio''))) (JStr [])
       in (case base64 of
             JStr b \<Rightarrow>
               if b = []
               then Inr (Reply (Json 400 (JObj [(ascii ''error'', JStr missingAudioMessage)])))
               else Inr (Audio b (orElse (member body (ascii ''sessionId'')) JNull))
           | _ \<Rightarrow> Inr (Reply (Json 400 (JObj [(ascii ''error'', JStr missingAudioMessage)]))))))"

definition summary :: "jsstring \<Rightarrow> jsval \<Rightarrow> bool \<Rightarrow> response" where
  "summary recognizedText todo notionPosted =
     Json 200 (JObj [(ascii ''recognizedText'', JStr recognizedText),
                     (ascii ''todoTitle'', member todo (ascii ''title'')),
                     (ascii ''todoWhen'', member todo (ascii ''when'')),
                     (ascii ''todoNotes'', member todo (ascii ''notes'')),
                     (ascii ''notionPosted'', JBool notionPosted)])"

definition handler :: "world \<Rightarrow> request \<Rightarrow> response \<times> call list" where
  "handler W req =
     (if req_method req \<noteq> ascii ''POST''
      then (Json 405 (JObj [(ascii ''error'', JStr (ascii ''Method Not Allowed. Use POST.''))]),
            [])
      else case readRequest W req of
        Inl err \<Rightarrow> (InternalServerError err, [])
      | Inr (Reply early) \<Rightarrow> (early, [])
      | Inr (Audio base64 sessionId) \<Rightarrow>
          let pcmBuffer = base64_decode W base64 in
          (case pcm16ToWavBuffer (kMaxLength W) pcmBuffer (Some 16000) (Some 1) of
             Inl err \<Rightarrow> (InternalServerError err, [])
           | Inr wavBuffer \<Rightarrow>
               (case callAzureSpeechToText W wavBuffer of
                  Inl err \<Rightarrow> (InternalServerError err, [SpeechToText wavBuffer])
                | Inr recognizedText \<Rightarrow>
                    if recognizedText \<noteq> [] then
                      (case callAzureOpenAITodoAnalyzer W recognizedText of
                         Inl err \<Rightarrow>
                           (InternalServerError err,
                            [SpeechToText wavBuffer, TodoAnalyzer recognizedText])
                       | Inr todo \<Rightarrow>
                           if truthy (member todo (ascii ''is_todo'')) then
                             let args = \<lparr> arg_title = member todo (ascii ''title''),
                                          arg_when = member todo (ascii ''when''),
                                          arg_notes = member todo (ascii ''notes''),
                                          arg_sourceText = recognizedText,
                                          arg_sessionId = sessionId \<rparr>
                             in (case postTodoToNotion W args of
                                   Inl err \<Rightarrow>
                                     (InternalServerError err,
                                      [SpeechToText wavBuffer, TodoAnalyzer recognizedText,
                                       PostToNotion args])
                                 | Inr notionPosted \<Rightarrow>
                                     (summary recognizedText todo notionPosted,
                                      [SpeechToText wavBuffer, TodoAnalyzer recognizedText,
                                       PostToNotion args]))
                           else
                             (summary recognizedText todo False,
                              [SpeechToText wavBuffer, TodoAnalyzer recognizedText]))
                    else (summary recognizedText notTask False, [SpeechToText wavBuffer]))))"

section \<open>The spoken-reply handler\<close>

text \<open>
  \<open>callAzureOpenAIChat(promptText)\<close>, \<open>escapeForXml(text)\<close>, \<open>callAzureSpeechTTS(text)\<close>
  and the handler exported by \<open>api/pocket-ai.js\<close>. The handler passes the recognized text
  to the chat service and the reply to the speech synthesis, whatever the text is.
\<close>

definition callAzureOpenAIChat :: "world \<Rightarrow> jsval \<Rightarrow> error + jsval" where
  "callAzureOpenAIChat W promptText =
     (if unset (AZURE_OPENAI_KEY W) \<or> unset (AZURE_OPENAI_ENDPOINT W)
         \<or> unset (AZURE_OPENAI_DEPLOYMENT W) then Inl MissingConfig
      else case fetch_chat W promptText of
        Rejected \<Rightarrow> Inl FetchFailed
      | Response res_ok res_json \<Rightarrow>
          if \<not> res_ok then Inl HttpError
          else (case res_json of
            None \<Rightarrow> Inl SyntaxError
          | Some data \<Rightarrow>
              bindE (replyText data) (\<lambda>reply.
              if \<not> truthy reply then Inl EmptyResult else Inr reply)))"

definition replaceAll :: "16 word \<Rightarrow> jsstring \<Rightarrow> jsstring \<Rightarrow> jsstring" where
  "replaceAll c new s = concat (map (\<lambda>x. if x = c then new else [x]) s)"

definition escapeForXml :: "jsval \<Rightarrow> error + jsstring" where
  "escapeForXml text =
     (if \<not> truthy text then Inr []
      else case text of
        JStr s \<Rightarrow>
          Inr (replaceAll 39 (ascii ''&apos;'')
              (replaceAll 34 (ascii ''&quot;'')
              (replaceAll 62 (ascii ''&gt;'')
              (replaceAll 60 (ascii ''&lt;'')
              (replaceAll 38 (ascii ''&amp;'') s)))))
      | _ \<Rightarrow> Inl TypeError)"

definition callAzureSpeechTTS :: "world \<Rightarrow> jsval \<Rightarrow> error + buffer" where
  "callAzureSpeechTTS W text =
     (if unset (AZURE_SPEECH_KEY W) \<or> unset (AZURE_SPEECH_REGION W) then Inl MissingConfig
      else bindE (escapeForXml text) (\<lambda>escaped.
        case fetch_tts W escaped of
          AudioRejected \<Rightarrow> Inl FetchFailed
        | AudioResponse res_ok res_arrayBuffer \<Rightarrow>
            if \<not> res_ok then Inl HttpError
            else (case res_arrayBuffer of
              None \<Rightarrow> Inl FetchFailed
            | Some bytes \<Rightarrow> Inr bytes)))"

definition pocket_readRequest :: "world \<Rightarrow> request \<Rightarrow> error + (response + jsstring)" where
  "pocket_readRequest W req =
     bindE (case req_body req of
              JStr s \<Rightarrow> (case JSON_parse W (if s = [] then ascii ''{}'' else s) of
                           None \<Rightarrow> Inl SyntaxError
                         | Some b \<Rightarrow> Inr b)
            | b \<Rightarrow> Inr (orElse b (JObj []))) (\<lambda>body.
     bindE (getMember body (ascii ''audioBase64'')) (\<lambda>audioBase64.
     let base64 = orElse (orElse audioBase64 (member body (ascii ''audio''))) (JStr [])
     in (case base64 of
           JStr b \<Rightarrow>
             if b = []
             then Inr (Inl (Json 400 (JObj [(ascii ''error'', JStr missingAudioMessage)])))
             else Inr (Inr b)
         | _ \<Rightarrow> Inr (Inl (Json 400 (JObj [(ascii ''error'', JStr missingAudioMessage)]))))))"

definition pocket_handler :: "world \<Rightarrow> request \<Rightarrow> response \<times> call list" where
  "pocket_handler W req =
     (if req_method req \<noteq> ascii ''POST''
      then (Json 405 (JObj [(ascii ''error'', JStr (ascii ''Method Not Allowed. Use POST.''))]),
            [])
      else case pocket_readRequest W req of
        Inl err \<Rightarrow> (InternalServerError err, [])
      | Inr (Inl early) \<Rightarrow> (early, [])
      | Inr (Inr base64) \<Rightarrow>
          let pcmBuffer = base64_decode W base64 in
          (case pcm16ToWavBuffer (kMaxLength W) pcmBuffer (Some 16000) (Some 1) of
             Inl err \<Rightarrow> (InternalServerError err, [])
           | Inr sttWavBuffer \<Rightarrow>
               (case pocket_callAzureSpeechToText W sttWavBuffer of
                  Inl err \<Rightarrow> (InternalServerError err, [SpeechToText sttWavBuffer])
                | Inr recognizedText \<Rightarrow>
                    (case callAzureOpenAIChat W recognizedText of
                       Inl err \<Rightarrow>
                         (InternalServerError err,
                          [SpeechToText sttWavBuffer, ChatCompletion recognizedText])
                     | Inr reply \<Rightarrow>
                         let calls = [SpeechToText sttWavBuffer, ChatCompletion recognizedText,
                                      TextToSpeech reply]
                         in (case callAzureSpeechTTS W reply of
                               Inl err \<Rightarrow> (InternalServerError err, calls)
                             | Inr ttsWavBuffer \<Rightarrow>
                                 (case encodeURIComponent W recognizedText of
                                    Inl err \<Rightarrow> (InternalServerError err, calls)
                                  | Inr recognizedHeader \<Rightarrow>
                                      (case encodeURIComponent W reply of
                                         Inl err \<Rightarrow> (InternalServerError err, calls)
                                       | Inr replyHeader \<Rightarrow>
                                           (Wav ttsWavBuffer (take 1024 recognizedHeader)
                                              (take 1024 replyHeader),
                                            calls))))))))"

section \<open>A sample world\<close>

text \<open>
  Concrete inputs for the examples below: \<open>JSON.parse\<close>, the base64 decoder and
  \<open>encodeURIComponent\<close> on the few texts the examples use (\<open>{}\<close>,
  \<open>{"is_todo":true,"title":"buy onions"}\<close>, \<open>AQIDBA==\<close> for the bytes 1, 2, 3, 4, and two
  Japanese sentences), a chat reply with one choice, a world with every variable set whose
  services answer 200 with the given bodies, and a request carrying the audio.
\<close>

definition todo_json :: jsstring where
  "todo_json = ascii ''{'' @ [34] @ ascii ''is_todo'' @ [34] @ ascii '':true,'' @ [34]
     @ ascii ''title'' @ [34] @ ascii '':'' @ [34] @ ascii ''buy onions'' @ [34] @ ascii ''}''"

definition example_parse :: "jsstring \<Rightarrow> jsval option" where
  "example_parse s =
     (if s = ascii ''{}'' then Some (JObj [])
      else if s = todo_json
        then Some (JObj [(ascii ''is_todo'', JBool True),
                         (ascii ''title'', JStr (ascii ''buy onions''))])
      else None)"

definition example_decode :: "jsstring \<Rightarrow> buffer" where
  "example_decode s = (if s = ascii ''AQIDBA=='' then [1, 2, 3, 4] else [])"

definition chatReply :: "jsstring \<Rightarrow> jsval" where
  "chatReply content =
     JObj [(ascii ''choices'',
            JArr [JObj [(ascii ''index'', JNum 0),
                        (ascii ''message'', JObj [(ascii ''role'', JStr (ascii ''assistant'')),
                                                  (ascii ''content'', JStr content)])]])]"

definition example_reply :: jsstring where
  "example_reply = [12399, 12356, 12290]"

definition example_encode :: "jsval \<Rightarrow> error + jsstring" where
  "example_encode v =
     (if v = JStr pocket_placeholder
        then Inr (ascii (''%E3%82%A8%E3%83%A9%E3%83%BC%E3%81%8C%E7%99%BA%E7%94%9F''
                        @ ''%E3%81%97%E3%81%BE%E3%81%97%E3%81%9F%E3%80%82''))
      else if v = JStr example_reply then Inr (ascii ''%E3%81%AF%E3%81%84%E3%80%82'')
      else Inl URIError)"

definition example_wav :: buffer where
  "example_wav = wav_header 4 16000 1 @ [1, 2, 3, 4]"

definition example_world :: "jsval \<Rightarrow> jsval \<Rightarrow> fetch_result \<Rightarrow> world" where
  "example_world sttData chatData notion =
     \<lparr> kMaxLength = 4294967296,
       JSON_parse = example_parse,
       base64_decode = example_decode,
       AZURE_SPEECH_KEY = Some (ascii ''key''),
       AZURE_SPEECH_REGION = Some (ascii ''japaneast''),
       AZURE_OPENAI_KEY = Some (ascii ''key''),
       AZURE_OPENAI_ENDPOINT = Some (ascii ''https://example.openai.azure.com/''),
       AZURE_OPENAI_DEPLOYMENT = Some (ascii ''gpt''),
       NOTION_API_KEY = Some (ascii ''secret''),
       NOTION_DATABASE_ID = Some (ascii ''db''),
       fetch_stt = (\<lambda>wavBuffer. Response True (Some sttData)),
       fetch_openai = (\<lambda>text. Response True (Some chatData)),
       fetch_notion = (\<lambda>args. notion),
       fetch_chat = (\<lambda>promptText. Response True (Some (chatReply example_reply))),
       fetch_tts = (\<lambda>escaped. AudioResponse True (Some example_wav)),
       encodeURIComponent = example_encode \<rparr>"

definition example_request :: request where
  "example_request =
     \<lparr> req_method = ascii ''POST'',
       req_body = JObj [(ascii ''audioBase64'', JStr (ascii ''AQIDBA==''))] \<rparr>"

section \<open>The encoder in closed form\<close>

lemma written_le: "written room len \<le> len"
  by (simp add: written_def Let_def)

lemma written_le_room: "written room len \<le> room"
proof -
  have "int room mod 4294967296 \<le> int room"
    by (rule zmod_le_nonneg_dividend) simp
  then show ?thesis
    by (auto simp add: written_def int32_def Let_def)
qed

lemma written_small: "room < 2147483648 \<Longrightarrow> len \<le> room \<Longrightarrow> written room len = len"
  by (simp add: written_def int32_def Let_def)

lemma length_magic [simp]: "length (magic room s) = length s"
  using written_le [of room "length s"]
  by (simp add: magic_def ascii_bytes_def)

lemma magic_small: "room < 2147483648 \<Longrightarrow> length s \<le> room \<Longrightarrow> magic room s = ascii_bytes s"
  by (simp add: magic_def written_small ascii_bytes_def)

lemma length_le32 [simp]: "length (le32 v) = 4"
  by (simp add: le32_def)

lemma length_le16 [simp]: "length (le16 v) = 2"
  by (simp add: le16_def)

lemma length_chunks [simp]: "length (chunks fs) = sum_list (map length fs)"
  by (simp add: chunks_def length_concat)

lemma chunks_snoc: "chunks (fs @ [x]) = chunks fs @ x"
  by (simp add: chunks_def)

lemma step_str:
  assumes "length (chunks fs) = offset" "length s \<le> n"
  shows "buffer_write (chunks fs @ replicate n 0) s offset
           = Inr (chunks (fs @ [magic n s]) @ replicate (n - length s) 0)"
proof -
  let ?w = "written n (length s)"
  have w: "?w \<le> length s" by (rule written_le)
  have "replicate n (0::byte) = replicate ?w 0 @ replicate (length s - ?w) 0 @ replicate (n - length s) 0"
    using w assms(2) by (simp add: replicate_add [symmetric])
  then have d: "drop ?w (replicate n (0::byte)) = replicate (length s - ?w) 0 @ replicate (n - length s) 0"
    by simp
  show ?thesis
    using assms d
    by (simp add: buffer_write_def Let_def magic_def chunks_snoc)
qed

lemma step_u32:
  assumes "length (chunks fs) = offset" "4 \<le> n"
  shows "writeUInt32LE (chunks fs @ replicate n 0) v offset
           = (if v > 4294967295 \<or> v < 0 then Inl RangeError
              else Inr (chunks (fs @ [le32 v]) @ replicate (n - 4) 0))"
  using assms by (simp add: writeUInt32LE_def le32_def chunks_snoc)

lemma step_u16:
  assumes "length (chunks fs) = offset" "2 \<le> n"
  shows "writeUInt16LE (chunks fs @ replicate n 0) v offset
           = (if v > 65535 \<or> v < 0 then Inl RangeError
              else Inr (chunks (fs @ [le16 v]) @ replicate (n - 2) 0))"
  using assms by (simp add: writeUInt16LE_def le16_def chunks_snoc)

lemma step_copy:
  assumes "length header = targetStart"
  shows "buffer_copy source (header @ replicate (length source) 0) targetStart
           = header @ source"
  using assms by (simp add: buffer_copy_def Let_def)

lemma length_written_header [simp]: "length (written_header n R C) = 44"
  by (simp add: written_header_def)

lemma alloc_chunks:
  "alloc K n = (if n > K then Inl RangeError else Inr (chunks [] @ replicate n 0))"
  by (simp add: alloc_def chunks_def)

lemma sixteen_div_eight: "(x * 16) div 8 = x * (2::int)"
  by simp

lemma chunks_header:
  "chunks [magic (44 + n) ''RIFF'', le32 (36 + int n), magic (36 + n) ''WAVE'',
           magic (32 + n) ''fmt '', le32 16, le16 1, le16 C, le32 R, le32 (R * C * 2),
           le16 (C * 2), le16 16, magic (8 + n) ''data'', le32 (int n)]
     = written_header n R C"
  by (simp add: chunks_def written_header_def)

lemma pcm16ToWavBuffer_closed:
  "pcm16ToWavBuffer K pcm sr nc =
     (if encodable K (length pcm) (defaultTo 16000 sr) (defaultTo 1 nc)
      then Inr (written_header (length pcm) (defaultTo 16000 sr) (defaultTo 1 nc) @ pcm)
      else Inl RangeError)"
  unfolding pcm16ToWavBuffer_def Let_def
  apply (simp only: sixteen_div_eight)
  apply (simp add: alloc_chunks bindE_def step_str step_u32 step_u16 step_copy chunks_header
      encodable_def)
  done

lemma pcm16ToWav_closed:
  "pcm16ToWav K pcm R =
     (if encodable K (length pcm) R 1
      then Inr (written_header (length pcm) R 1 @ pcm)
      else Inl RangeError)"
  unfolding pcm16ToWav_def Let_def
  apply (simp only: sixteen_div_eight)
  apply (simp add: alloc_chunks bindE_def step_str step_u32 step_u16 step_copy
      chunks_header [where C = 1, simplified] encodable_def)
  done

lemma le32_read:
  assumes "0 \<le> v" "v \<le> 4294967295"
  shows "uint (word_of_int v :: byte) + 256 * uint (word_of_int (v div 256) :: byte)
         + 65536 * uint (word_of_int (v div 65536) :: byte)
         + 16777216 * uint (word_of_int (v div 16777216) :: byte) = v"
proof -
  define a where "a = v mod 256"
  define b where "b = v div 256 mod 256"
  define c where "c = v div 65536 mod 256"
  define d where "d = v div 16777216"
  have d1: "v div 65536 div 256 = d"
    unfolding d_def using zdiv_zmult2_eq [of 256 v 65536] by simp
  have d2: "v div 256 div 256 = v div 65536"
    using zdiv_zmult2_eq [of 256 v 256] by simp
  have e1: "v = 256 * (v div 256) + a"
    unfolding a_def by simp
  have "v div 256 = 256 * (v div 256 div 256) + b"
    unfolding b_def by simp
  then have e2: "v div 256 = 256 * (v div 65536) + b"
    by (simp only: d2)
  have "v div 65536 = 256 * (v div 65536 div 256) + c"
    unfolding c_def by simp
  then have e3: "v div 65536 = 256 * d + c"
    by (simp only: d1)
  have "0 \<le> d" "d < 256"
    unfolding d_def using assms by simp_all
  then have top: "d mod 256 = d" by simp
  have u: "uint (word_of_int v :: byte) = a"
    "uint (word_of_int (v div 256) :: byte) = b"
    "uint (word_of_int (v div 65536) :: byte) = c"
    "uint (word_of_int (v div 16777216) :: byte) = d"
    unfolding a_def b_def c_def using top
    by (simp_all add: uint_word_of_int take_bit_eq_mod d_def)
  have "a + 256 * b + 65536 * c + 16777216 * d = v"
    using e1 e2 e3 by linarith
  then show ?thesis by (simp only: u)
qed

lemma le16_read:
  assumes "0 \<le> v" "v \<le> 65535"
  shows "uint (word_of_int v :: byte) + 256 * uint (word_of_int (v div 256) :: byte) = v"
proof -
  define a where "a = v mod 256"
  define d where "d = v div 256"
  have e1: "v = 256 * d + a"
    unfolding a_def d_def by simp
  have "0 \<le> d" "d < 256"
    unfolding d_def using assms by simp_all
  then have top: "d mod 256 = d" by simp
  have u: "uint (word_of_int v :: byte) = a" "uint (word_of_int (v div 256) :: byte) = d"
    unfolding a_def using top
    by (simp_all add: uint_word_of_int take_bit_eq_mod d_def)
  have "a + 256 * d = v"
    using e1 by linarith
  then show ?thesis by (simp only: u)
qed

lemma written_header_small:
  "44 + n \<le> 2147483647 \<Longrightarrow> written_header n R C = wav_header (int n) R C"
  by (simp add: written_header_def wav_header_def magic_small)

lemma pcm16ToWavBuffer_small:
  "44 + length pcm \<le> 2147483647 \<Longrightarrow>
   pcm16ToWavBuffer K pcm sr nc =
     (if encodable K (length pcm) (defaultTo 16000 sr) (defaultTo 1 nc)
      then Inr (wav_header (int (length pcm)) (defaultTo 16000 sr) (defaultTo 1 nc) @ pcm)
      else Inl RangeError)"
  by (simp add: pcm16ToWavBuffer_closed written_header_small)

lemma pcm16ToWav_small:
  "44 + length pcm \<le> 2147483647 \<Longrightarrow>
   pcm16ToWav K pcm R =
     (if encodable K (length pcm) R 1
      then Inr (wav_header (int (length pcm)) R 1 @ pcm)
      else Inl RangeError)"
  by (simp add: pcm16ToWav_closed written_header_small)

lemma read_u32_at:
  assumes "length pre = offset" "0 \<le> v" "v \<le> 4294967295"
  shows "readUInt32LE (pre @ le32 v @ post) offset = v"
  using assms le32_read [of v]
  by (simp add: readUInt32LE_def le32_def nth_append)

lemma read_u16_at:
  assumes "length pre = offset" "0 \<le> v" "v \<le> 65535"
  shows "readUInt16LE (pre @ le16 v @ post) offset = v"
  using assms le16_read [of v]
  by (simp add: readUInt16LE_def le16_def nth_append)

lemma header_chunk_sizes:
  assumes "36 + int n \<le> 4294967295"
  shows "readUInt32LE (written_header n R C @ pcm) 4 = 36 + int n"
    and "readUInt32LE (written_header n R C @ pcm) 40 = int n"
proof -
  have a: "written_header n R C @ pcm
      = magic (44 + n) ''RIFF'' @ le32 (36 + int n)
        @ (magic (36 + n) ''WAVE'' @ magic (32 + n) ''fmt '' @ le32 16 @ le16 1 @ le16 C
           @ le32 R @ le32 (R * C * 2) @ le16 (C * 2) @ le16 16 @ magic (8 + n) ''data''
           @ le32 (int n) @ pcm)"
    by (simp add: written_header_def)
  have b: "written_header n R C @ pcm
      = (magic (44 + n) ''RIFF'' @ le32 (36 + int n) @ magic (36 + n) ''WAVE''
         @ magic (32 + n) ''fmt '' @ le32 16 @ le16 1 @ le16 C @ le32 R @ le32 (R * C * 2)
         @ le16 (C * 2) @ le16 16 @ magic (8 + n) ''data'')
        @ le32 (int n) @ pcm"
    by (simp add: written_header_def)
  show "readUInt32LE (written_header n R C @ pcm) 4 = 36 + int n"
    unfolding a using assms by (intro read_u32_at) simp_all
  show "readUInt32LE (written_header n R C @ pcm) 40 = int n"
    unfolding b using assms by (intro read_u32_at) simp_all
qed

lemma header_rates:
  assumes "0 \<le> R * C * 2" "R * C * 2 \<le> 4294967295" "0 \<le> C" "C * 2 \<le> 65535"
  shows "readUInt32LE (written_header n R C @ pcm) 28 = R * C * 2"
    and "readUInt16LE (written_header n R C @ pcm) 32 = C * 2"
proof -
  have a: "written_header n R C @ pcm
      = (magic (44 + n) ''RIFF'' @ le32 (36 + int n) @ magic (36 + n) ''WAVE''
         @ magic (32 + n) ''fmt '' @ le32 16 @ le16 1 @ le16 C @ le32 R)
        @ le32 (R * C * 2)
        @ (le16 (C * 2) @ le16 16 @ magic (8 + n) ''data'' @ le32 (int n) @ pcm)"
    by (simp add: written_header_def)
  have b: "written_header n R C @ pcm
      = (magic (44 + n) ''RIFF'' @ le32 (36 + int n) @ magic (36 + n) ''WAVE''
         @ magic (32 + n) ''fmt '' @ le32 16 @ le16 1 @ le16 C @ le32 R @ le32 (R * C * 2))
        @ le16 (C * 2)
        @ (le16 16 @ magic (8 + n) ''data'' @ le32 (int n) @ pcm)"
    by (simp add: written_header_def)
  show "readUInt32LE (written_header n R C @ pcm) 28 = R * C * 2"
    unfolding a using assms by (intro read_u32_at) simp_all
  show "readUInt16LE (written_header n R C @ pcm) 32 = C * 2"
    unfolding b using assms by (intro read_u16_at) simp_all
qed

lemma header_constants:
  "readUInt16LE (written_header n R C @ pcm) 34 = 16"
  "readUInt16LE (written_header n R C @ pcm) 20 = 1"
  "readUInt32LE (written_header n R C @ pcm) 16 = 16"
proof -
  have a: "written_header n R C @ pcm
      = (magic (44 + n) ''RIFF'' @ le32 (36 + int n) @ magic (36 + n) ''WAVE''
         @ magic (32 + n) ''fmt '' @ le32 16 @ le16 1 @ le16 C @ le32 R @ le32 (R * C * 2)
         @ le16 (C * 2))
        @ le16 16
        @ (magic (8 + n) ''data'' @ le32 (int n) @ pcm)"
    by (simp add: written_header_def)
  have b: "written_header n R C @ pcm
      = (magic (44 + n) ''RIFF'' @ le32 (36 + int n) @ magic (36 + n) ''WAVE''
         @ magic (32 + n) ''fmt '' @ le32 16)
        @ le16 1
        @ (le16 C @ le32 R @ le32 (R * C * 2) @ le16 (C * 2) @ le16 16
           @ magic (8 + n) ''data'' @ le32 (int n) @ pcm)"
    by (simp add: written_header_def)
  have c: "written_header n R C @ pcm
      = (magic (44 + n) ''RIFF'' @ le32 (36 + int n) @ magic (36 + n) ''WAVE''
         @ magic (32 + n) ''fmt '')
        @ le32 16
        @ (le16 1 @ le16 C @ le32 R @ le32 (R * C * 2) @ le16 (C * 2) @ le16 16
           @ magic (8 + n) ''data'' @ le32 (int n) @ pcm)"
    by (simp add: written_header_def)
  show "readUInt16LE (written_header n R C @ pcm) 34 = 16"
    unfolding a by (intro read_u16_at) simp_all
  show "readUInt16LE (written_header n R C @ pcm) 20 = 1"
    unfolding b by (intro read_u16_at) simp_all
  show "readUInt32LE (written_header n R C @ pcm) 16 = 16"
    unfolding c by (intro read_u32_at) simp_all
qed

lemma header_magic:
  "slice (wav_header L R C @ pcm) 0 4 = ascii_bytes ''RIFF''"
  "slice (wav_header L R C @ pcm) 8 12 = ascii_bytes ''WAVE''"
  "slice (wav_header L R C @ pcm) 12 16 = ascii_bytes ''fmt ''"
  "slice (wav_header L R C @ pcm) 36 40 = ascii_bytes ''data''"
  by (simp_all add: slice_def wav_header_def le32_def le16_def ascii_bytes_def)

lemma header_payload:
  "drop 44 (written_header n R C @ pcm) = pcm"
  "slice (written_header n R C @ pcm) 44 (44 + length pcm) = pcm"
  by (simp_all add: slice_def)

section \<open>Properties of the encoder\<close>

text \<open>
  C1, as the specification states it: the encoder succeeds for every payload, every sample
  rate and every channel count. It does not: a channel count of 65536 does not fit the
  16-bit field at offset 22, and \<open>writeUInt16LE\<close> throws.
\<close>

theorem pcm16ToWavBuffer_rejects_wide_channel_count:
  "pcm16ToWavBuffer 9007199254740991 [] (Some 16000) (Some 65536) = Inl RangeError"
  by (simp add: pcm16ToWavBuffer_closed encodable_def defaultTo_def)

text \<open>
  C1, amended: whenever every header field accepts its value (channel count in
  \<open>0 .. 32767\<close>, sample rate and byte rate in \<open>0 .. 2^32 - 1\<close>, \<open>36 + L\<close> at most
  \<open>2^32 - 1\<close>) and \<open>44 + L\<close> bytes can be allocated, both encoders succeed and return
  exactly \<open>44 + L\<close> bytes.
\<close>

theorem encoder_length:
  "(encodable K (length pcm) (defaultTo 16000 sr) (defaultTo 1 nc) \<longrightarrow>
      (\<exists>out. pcm16ToWavBuffer K pcm sr nc = Inr out \<and> length out = 44 + length pcm))
   \<and> (encodable K (length pcm) R 1 \<longrightarrow>
      (\<exists>out. pcm16ToWav K pcm R = Inr out \<and> length out = 44 + length pcm))"
  by (simp add: pcm16ToWavBuffer_closed pcm16ToWav_closed)

theorem encoder_length_witness:
  "encodable 9007199254740991 (length ([]::buffer)) (defaultTo 16000 None) (defaultTo 1 None)
   \<and> (\<exists>out. pcm16ToWavBuffer 9007199254740991 [] None None = Inr out \<and> length out = 44)
   \<and> encodable 9007199254740991 (length ([]::buffer)) 16000 1
   \<and> (\<exists>out. pcm16ToWav 9007199254740991 [] 16000 = Inr out \<and> length out = 44)"
  using encoder_length [of 9007199254740991 "[]" None None 16000]
  by (simp add: encodable_def defaultTo_def)

text \<open>
  C2, as the specification states it: for every payload of \<open>L\<close> bytes the output carries
  \<open>36 + L\<close> at offset 4 and \<open>L\<close> at offset 40. It does not: for a payload of 4294967260
  bytes \<open>36 + L\<close> is \<open>2^32\<close>, the field at offset 4 does not hold it, \<open>writeUInt32LE\<close>
  throws and there is no output.
\<close>

theorem pcm16ToWavBuffer_rejects_4GiB_payload:
  "pcm16ToWavBuffer 9007199254740991 (replicate 4294967260 0) None None = Inl RangeError"
  by (simp add: pcm16ToWavBuffer_closed encodable_def defaultTo_def)

text \<open>
  C2, amended: for every payload of \<open>L\<close> bytes, sample rate and channel count that the
  header's fields accept (\<open>encodable\<close>, as in C1), each encoder returns an output whose
  field at offset 4 reads \<open>36 + L\<close> and whose field at offset 40 reads \<open>L\<close>.
\<close>

theorem encoder_chunk_sizes:
  "(encodable K (length pcm) (defaultTo 16000 sr) (defaultTo 1 nc) \<longrightarrow>
      (\<exists>out. pcm16ToWavBuffer K pcm sr nc = Inr out
         \<and> readUInt32LE out 4 = 36 + int (length pcm)
         \<and> readUInt32LE out 40 = int (length pcm)))
   \<and> (encodable K (length pcm) R 1 \<longrightarrow>
      (\<exists>out. pcm16ToWav K pcm R = Inr out
         \<and> readUInt32LE out 4 = 36 + int (length pcm)
         \<and> readUInt32LE out 40 = int (length pcm)))"
  by (simp add: pcm16ToWavBuffer_closed pcm16ToWav_closed encodable_def header_chunk_sizes)

theorem encoder_chunk_sizes_witness:
  "encodable 9007199254740991 (length [1, 2, 3, 4 :: byte]) (defaultTo 16000 None)
     (defaultTo 1 None)
   \<and> (\<exists>out. pcm16ToWavBuffer 9007199254740991 [1, 2, 3, 4] None None = Inr out
         \<and> readUInt32LE out 4 = 40 \<and> readUInt32LE out 40 = 4)
   \<and> encodable 9007199254740991 (length [1, 2, 3, 4 :: byte]) 16000 1
   \<and> (\<exists>out. pcm16ToWav 9007199254740991 [1, 2, 3, 4] 16000 = Inr out
         \<and> readUInt32LE out 4 = 40 \<and> readUInt32LE out 40 = 4)"
  using encoder_chunk_sizes [of 9007199254740991 "[1, 2, 3, 4]" None None 16000]
  by (simp add: encodable_def defaultTo_def)

text \<open>
  C3, as the specification states it: for every payload the bytes of the output from
  offset 44 on are the payload. They are not for a payload of 4294967260 bytes: the encoder
  throws at the field at offset 4 and returns no output to strip the header from.
\<close>

theorem pcm16ToWav_rejects_4GiB_payload:
  "pcm16ToWav 9007199254740991 (replicate 4294967260 0) 16000 = Inl RangeError"
  by (simp add: pcm16ToWav_closed encodable_def)

text \<open>
  C3, amended: for every payload of \<open>L\<close> bytes, sample rate and channel count that the
  header's fields accept (\<open>encodable\<close>, as in C1), each encoder returns an output whose
  bytes from offset 44 to \<open>44 + L - 1\<close> are the payload, so dropping the first 44 bytes of
  the output gives the payload back.
\<close>

theorem encoder_payload_roundtrip:
  "(encodable K (length pcm) (defaultTo 16000 sr) (defaultTo 1 nc) \<longrightarrow>
      (\<exists>out. pcm16ToWavBuffer K pcm sr nc = Inr out
         \<and> slice out 44 (44 + length pcm) = pcm \<and> drop 44 out = pcm))
   \<and> (encodable K (length pcm) R 1 \<longrightarrow>
      (\<exists>out. pcm16ToWav K pcm R = Inr out
         \<and> slice out 44 (44 + length pcm) = pcm \<and> drop 44 out = pcm))"
  by (simp add: pcm16ToWavBuffer_closed pcm16ToWav_closed header_payload)

theorem encoder_payload_roundtrip_witness:
  "encodable 9007199254740991 (length [1, 2, 3, 4 :: byte]) (defaultTo 16000 None)
     (defaultTo 1 None)
   \<and> (\<exists>out. pcm16ToWavBuffer 9007199254740991 [1, 2, 3, 4] None None = Inr out
         \<and> slice out 44 48 = [1, 2, 3, 4] \<and> drop 44 out = [1, 2, 3, 4])
   \<and> encodable 9007199254740991 (length [1, 2, 3, 4 :: byte]) 16000 1
   \<and> (\<exists>out. pcm16ToWav 9007199254740991 [1, 2, 3, 4] 16000 = Inr out
         \<and> slice out 44 48 = [1, 2, 3, 4] \<and> drop 44 out = [1, 2, 3, 4])"
  using encoder_payload_roundtrip [of 9007199254740991 "[1, 2, 3, 4]" None None 16000]
  by (simp add: encodable_def defaultTo_def)

text \<open>
  C4, as the specification states it: for every input the output carries the four strings.
  It does not: for a payload of 4294967259 bytes the buffer has 4294967303 bytes, the room
  that remains at offset 12 is 4294967291, which the native writer takes as \<open>-5\<close>, and
  nothing is written: bytes 12-15 of the output are zero, not "fmt ".
\<close>

theorem pcm16ToWavBuffer_loses_fmt_in_4GiB_buffer:
  "pcm16ToWavBuffer 9007199254740991 (replicate 4294967259 0) None None
     = Inr (written_header 4294967259 16000 1 @ replicate 4294967259 0)
   \<and> slice (written_header 4294967259 16000 1 @ replicate 4294967259 0) 12 16 = [0, 0, 0, 0]
   \<and> ascii_bytes ''fmt '' = [102, 109, 116, 32]"
  by (simp add: pcm16ToWavBuffer_closed encodable_def defaultTo_def written_header_def
      magic_def written_def int32_def slice_def le32_def le16_def ascii_bytes_def)

text \<open>
  C4, amended: for every payload, sample rate and channel count that the header's fields
  accept (\<open>encodable\<close>, as in C1) and whose output is shorter than \<open>2^31\<close> bytes, each
  encoder returns an output in which bytes 0-3 are "RIFF", bytes 8-11 are "WAVE",
  bytes 12-15 are "fmt " and bytes 36-39 are "data".
\<close>

theorem encoder_magic:
  "(encodable K (length pcm) (defaultTo 16000 sr) (defaultTo 1 nc)
      \<and> 44 + length pcm \<le> 2147483647 \<longrightarrow>
      (\<exists>out. pcm16ToWavBuffer K pcm sr nc = Inr out
         \<and> slice out 0 4 = ascii_bytes ''RIFF'' \<and> slice out 8 12 = ascii_bytes ''WAVE''
         \<and> slice out 12 16 = ascii_bytes ''fmt '' \<and> slice out 36 40 = ascii_bytes ''data''))
   \<and> (encodable K (length pcm) R 1 \<and> 44 + length pcm \<le> 2147483647 \<longrightarrow>
      (\<exists>out. pcm16ToWav K pcm R = Inr out
         \<and> slice out 0 4 = ascii_bytes ''RIFF'' \<and> slice out 8 12 = ascii_bytes ''WAVE''
         \<and> slice out 12 16 = ascii_bytes ''fmt '' \<and> slice out 36 40 = ascii_bytes ''data''))"
  by (simp add: pcm16ToWavBuffer_small pcm16ToWav_small header_magic)

theorem encoder_magic_witness:
  "encodable 9007199254740991 (length [1, 2, 3, 4 :: byte]) (defaultTo 16000 None)
     (defaultTo 1 None)
   \<and> 44 + length [1, 2, 3, 4 :: byte] \<le> 2147483647
   \<and> (\<exists>out. pcm16ToWavBuffer 9007199254740991 [1, 2, 3, 4] None None = Inr out
         \<and> slice out 0 4 = [82, 73, 70, 70] \<and> slice out 8 12 = [87, 65, 86, 69]
         \<and> slice out 12 16 = [102, 109, 116, 32] \<and> slice out 36 40 = [100, 97, 116, 97])
   \<and> encodable 9007199254740991 (length [1, 2, 3, 4 :: byte]) 16000 1
   \<and> (\<exists>out. pcm16ToWav 9007199254740991 [1, 2, 3, 4] 16000 = Inr out
         \<and> slice out 0 4 = [82, 73, 70, 70] \<and> slice out 8 12 = [87, 65, 86, 69]
         \<and> slice out 12 16 = [102, 109, 116, 32] \<and> slice out 36 40 = [100, 97, 116, 97])"
  using encoder_magic [of 9007199254740991 "[1, 2, 3, 4]" None None 16000]
  by (simp add: encodable_def defaultTo_def ascii_bytes_def)

text \<open>
  C5, as the specification states it: for every positive sample rate and channel count the
  output carries the byte rate at offset 28. It does not: for a sample rate of 3000000000
  and one channel the byte rate is 6000000000, the field at offset 28 does not hold it,
  \<open>writeUInt32LE\<close> throws and there is no output.
\<close>

theorem pcm16ToWavBuffer_rejects_wide_byte_rate:
  "pcm16ToWavBuffer 9007199254740991 [] (Some 3000000000) (Some 1) = Inl RangeError"
  by (simp add: pcm16ToWavBuffer_closed encodable_def defaultTo_def)

text \<open>
  C5, amended: for every payload, sample rate \<open>R\<close> and channel count \<open>C\<close> (given or left to
  the defaults 16000 and 1; \<open>pcm16ToWav\<close> has \<open>C = 1\<close>) that the header's fields accept
  (\<open>encodable\<close>, as in C1), each encoder returns an output whose field at offset 28 reads
  \<open>R * C * 2\<close>, whose field at offset 32 reads \<open>C * 2\<close>, and whose fields at offsets 34, 20
  and 16 read 16, 1 and 16.
\<close>

theorem encoder_format_fields:
  "(encodable K (length pcm) (defaultTo 16000 sr) (defaultTo 1 nc) \<longrightarrow>
      (\<exists>out. pcm16ToWavBuffer K pcm sr nc = Inr out
         \<and> readUInt32LE out 28 = defaultTo 16000 sr * defaultTo 1 nc * 2
         \<and> readUInt16LE out 32 = defaultTo 1 nc * 2
         \<and> readUInt16LE out 34 = 16 \<and> readUInt16LE out 20 = 1 \<and> readUInt32LE out 16 = 16))
   \<and> (encodable K (length pcm) R 1 \<longrightarrow>
      (\<exists>out. pcm16ToWav K pcm R = Inr out
         \<and> readUInt32LE out 28 = R * 1 * 2 \<and> readUInt16LE out 32 = 1 * 2
         \<and> readUInt16LE out 34 = 16 \<and> readUInt16LE out 20 = 1 \<and> readUInt32LE out 16 = 16))"
proof -
  have one: "readUInt32LE (written_header n R 1 @ pcm) 28 = R * 2 \<and>
      readUInt16LE (written_header n R 1 @ pcm) 32 = 2"
    if "0 \<le> R * 2" "R * 2 \<le> 4294967295" for n
    using that header_rates [of R 1 n pcm] by simp
  show ?thesis
    using one
    by (simp add: pcm16ToWavBuffer_closed pcm16ToWav_closed encodable_def header_rates
        header_constants)
qed

theorem encoder_format_fields_witness:
  "encodable 9007199254740991 (length [1, 2, 3, 4 :: byte]) (defaultTo 16000 (Some 48000))
     (defaultTo 1 (Some 2))
   \<and> (\<exists>out. pcm16ToWavBuffer 9007199254740991 [1, 2, 3, 4] (Some 48000) (Some 2) = Inr out
         \<and> readUInt32LE out 28 = 192000 \<and> readUInt16LE out 32 = 4
         \<and> readUInt16LE out 34 = 16 \<and> readUInt16LE out 20 = 1 \<and> readUInt32LE out 16 = 16)
   \<and> encodable 9007199254740991 (length [1, 2, 3, 4 :: byte]) 48000 1
   \<and> (\<exists>out. pcm16ToWav 9007199254740991 [1, 2, 3, 4] 48000 = Inr out
         \<and> readUInt32LE out 28 = 96000 \<and> readUInt16LE out 32 = 2
         \<and> readUInt16LE out 34 = 16 \<and> readUInt16LE out 20 = 1 \<and> readUInt32LE out 16 = 16)"
  using encoder_format_fields [of 9007199254740991 "[1, 2, 3, 4]" "Some 48000" "Some 2" 48000]
  by (simp add: encodable_def defaultTo_def)

section \<open>Properties of the TODO analyzer\<close>

lemma member_defined: "member v k \<noteq> JUndefined \<Longrightarrow> \<not> nullish v"
  by (cases v) simp_all

lemma elem0_defined: "elem0 v \<noteq> JUndefined \<Longrightarrow> \<not> nullish v"
  by (cases v) simp_all

lemma not_nullish_defined: "\<not> nullish v \<Longrightarrow> v \<noteq> JUndefined"
  by (cases v) simp_all

lemma replyText_of_message:
  assumes shape: "member (member (elem0 (member data (ascii ''choices''))) (ascii ''message''))
                    (ascii ''content'') = JStr reply"
    and nonempty: "trim reply \<noteq> []"
  shows "replyText data = Inr (JStr (trim reply))"
proof -
  let ?choices = "member data (ascii ''choices'')"
  let ?choice = "elem0 ?choices"
  let ?msg = "member ?choice (ascii ''message'')"
  have m: "\<not> nullish ?msg"
    using shape member_defined [of ?msg "ascii ''content''"] by simp
  then have c: "\<not> nullish ?choice"
    using member_defined [of ?choice "ascii ''message''"] not_nullish_defined by blast
  then have cs: "\<not> nullish ?choices"
    using elem0_defined [of ?choices] not_nullish_defined by blast
  then have d: "\<not> nullish data"
    using member_defined [of data "ascii ''choices''"] not_nullish_defined by blast
  show ?thesis
    using shape nonempty m c cs d
    by (simp add: replyText_def bindE_def getMember_def optChain_def trimmed_def)
qed

lemmas sample_defs = callAzureOpenAITodoAnalyzer_def todoReplyContent_def replyText_def
  example_world_def
  chatReply_def bindE_def getMember_def optChain_def trimmed_def unset_def ascii_def
  orElse_def coalesce_def notTask_def example_parse_def todo_json_def stripFence_def
  fence_def startsWith_def trim_def isWhiteSpace_def

text \<open>
  C6, as the specification states it: every reply that does not parse, an empty reply
  included, gives the "not a task" result without an error. It does not: for a reply whose
  content is empty the analyzer throws before it parses anything.
\<close>

theorem analyzer_throws_on_empty_reply:
  "callAzureOpenAITodoAnalyzer (example_world JNull (chatReply []) Rejected) (ascii ''hello'')
     = Inl EmptyResult"
  by (simp add: sample_defs)

text \<open>
  C6, amended: when the chat service answers with a reply whose text is not empty and
  \<open>JSON.parse\<close> throws on that text (taken out of its Markdown code fence when it has
  one), the analyzer raises no error and returns the "not a task" object: \<open>is_todo\<close> false,
  \<open>title\<close>, \<open>when\<close> and \<open>notes\<close> null. When the reply's text is empty, the analyzer throws.
\<close>

theorem analyzer_fallback:
  assumes cfg: "\<not> unset (AZURE_OPENAI_KEY W)" "\<not> unset (AZURE_OPENAI_ENDPOINT W)"
      "\<not> unset (AZURE_OPENAI_DEPLOYMENT W)"
    and fetch: "fetch_openai W text = Response True (Some data)"
    and reply: "replyText data = Inr (JStr content)"
  shows "(content \<noteq> [] \<and> JSON_parse W (stripFence content) = None \<longrightarrow>
            callAzureOpenAITodoAnalyzer W text
              = Inr (JObj [(ascii ''is_todo'', JBool False), (ascii ''title'', JNull),
                           (ascii ''when'', JNull), (ascii ''notes'', JNull)]))
       \<and> (content = [] \<longrightarrow> callAzureOpenAITodoAnalyzer W text = Inl EmptyResult)"
  using assms
  by (simp add: callAzureOpenAITodoAnalyzer_def todoReplyContent_def bindE_def notTask_def)

theorem analyzer_fallback_witness:
  "callAzureOpenAITodoAnalyzer
     (example_world JNull (chatReply (ascii '' I do not know. '')) Rejected) (ascii ''hello'')
   = Inr (JObj [(ascii ''is_todo'', JBool False), (ascii ''title'', JNull),
                (ascii ''when'', JNull), (ascii ''notes'', JNull)])
   \<and> callAzureOpenAITodoAnalyzer
     (example_world JNull (chatReply (ascii ''  '')) Rejected) (ascii ''hello'')
   = Inl EmptyResult"
proof -
  let ?W = "example_world JNull (chatReply (ascii '' I do not know. '')) Rejected"
  let ?V = "example_world JNull (chatReply (ascii ''  '')) Rejected"
  have cfg: "\<not> unset (AZURE_OPENAI_KEY (example_world JNull d Rejected))"
      "\<not> unset (AZURE_OPENAI_ENDPOINT (example_world JNull d Rejected))"
      "\<not> unset (AZURE_OPENAI_DEPLOYMENT (example_world JNull d Rejected))" for d
    by (simp_all add: example_world_def unset_def ascii_def)
  have fetch: "fetch_openai (example_world JNull d Rejected) (ascii ''hello'')
      = Response True (Some d)" for d
    by (simp add: example_world_def)
  have shape: "member (member (elem0 (member (chatReply (ascii '' I do not know. ''))
      (ascii ''choices''))) (ascii ''message'')) (ascii ''content'')
      = JStr (ascii '' I do not know. '')"
    by (simp add: chatReply_def ascii_def)
  have nonempty: "trim (ascii '' I do not know. '') \<noteq> []"
    by (simp add: trim_def isWhiteSpace_def ascii_def)
  have trimmed: "trim (ascii '' I do not know. '') = ascii ''I do not know.''"
    by (simp add: trim_def isWhiteSpace_def ascii_def)
  have reply: "replyText (chatReply (ascii '' I do not know. ''))
      = Inr (JStr (ascii ''I do not know.''))"
    using replyText_of_message [OF shape nonempty] by (simp only: trimmed)
  have unparsed: "ascii ''I do not know.'' \<noteq> []
      \<and> JSON_parse ?W (stripFence (ascii ''I do not know.'')) = None"
    by (simp add: sample_defs)
  have blank: "replyText (chatReply (ascii ''  '')) = Inr (JStr [])"
    by (simp add: sample_defs)
  show ?thesis
    using analyzer_fallback [OF cfg fetch reply] analyzer_fallback [OF cfg fetch blank] unparsed
    by simp
qed

text \<open>
  C10: every value the analyzer returns is an object with exactly the four fields
  \<open>is_todo\<close>, \<open>title\<close>, \<open>when\<close>, \<open>notes\<close>, in which \<open>is_todo\<close> is a boolean and no field is
  \<open>undefined\<close>. After the fallback they are false, null, null, null; after a parse,
  \<open>is_todo\<close> is the truthiness of the parsed \<open>is_todo\<close> and each of the other three is the
  parsed value when that is present and not null, and null otherwise.
\<close>

theorem analyzer_result_shape:
  assumes "callAzureOpenAITodoAnalyzer W text = Inr v"
  shows "\<exists>b t w n.
      v = JObj [(ascii ''is_todo'', JBool b), (ascii ''title'', t),
                (ascii ''when'', w), (ascii ''notes'', n)]
      \<and> t \<noteq> JUndefined \<and> w \<noteq> JUndefined \<and> n \<noteq> JUndefined
      \<and> (\<exists>content. todoReplyContent W text = Inr content
           \<and> (case JSON_parse W content of
                 None \<Rightarrow> \<not> b \<and> t = JNull \<and> w = JNull \<and> n = JNull
               | Some parsed \<Rightarrow>
                   b = truthy (member parsed (ascii ''is_todo''))
                   \<and> t = (if member parsed (ascii ''title'') \<in> {JUndefined, JNull} then JNull
                          else member parsed (ascii ''title''))
                   \<and> w = (if member parsed (ascii ''when'') \<in> {JUndefined, JNull} then JNull
                          else member parsed (ascii ''when''))
                   \<and> n = (if member parsed (ascii ''notes'') \<in> {JUndefined, JNull} then JNull
                          else member parsed (ascii ''notes''))))"
proof -
  have co: "coalesce x JNull = (if x \<in> {JUndefined, JNull} then JNull else x)" for x
    by (cases x) (simp_all add: coalesce_def)
  have cu: "coalesce x JNull \<noteq> JUndefined" for x
    by (cases x) (simp_all add: coalesce_def)
  obtain content where c: "todoReplyContent W text = Inr content"
    using assms by (cases "todoReplyContent W text")
      (simp_all add: callAzureOpenAITodoAnalyzer_def bindE_def)
  show ?thesis
  proof (cases "JSON_parse W content")
    case None
    then have "v = notTask"
      using assms c by (simp add: callAzureOpenAITodoAnalyzer_def bindE_def)
    then show ?thesis
      using c None by (auto simp add: notTask_def)
  next
    case (Some parsed)
    then have "\<not> nullish parsed"
      using assms c
      by (auto simp add: callAzureOpenAITodoAnalyzer_def bindE_def getMember_def
          split: if_splits)
    then have "v = JObj [(ascii ''is_todo'', JBool (truthy (member parsed (ascii ''is_todo'')))),
                  (ascii ''title'', coalesce (member parsed (ascii ''title'')) JNull),
                  (ascii ''when'', coalesce (member parsed (ascii ''when'')) JNull),
                  (ascii ''notes'', coalesce (member parsed (ascii ''notes'')) JNull)]"
      using assms c Some
      by (simp add: callAzureOpenAITodoAnalyzer_def bindE_def getMember_def)
    then show ?thesis
      using c Some cu by (simp add: co)
  qed
qed

theorem analyzer_result_shape_witness:
  "callAzureOpenAITodoAnalyzer (example_world JNull (chatReply todo_json) Rejected)
     (ascii ''hello'')
   = Inr (JObj [(ascii ''is_todo'', JBool True), (ascii ''title'', JStr (ascii ''buy onions'')),
                (ascii ''when'', JNull), (ascii ''notes'', JNull)])
   \<and> (\<exists>b t w n.
        JObj [(ascii ''is_todo'', JBool True), (ascii ''title'', JStr (ascii ''buy onions'')),
              (ascii ''when'', JNull), (ascii ''notes'', JNull)]
        = JObj [(ascii ''is_todo'', JBool b), (ascii ''title'', t),
                (ascii ''when'', w), (ascii ''notes'', n)]
        \<and> t \<noteq> JUndefined \<and> w \<noteq> JUndefined \<and> n \<noteq> JUndefined)"
proof -
  let ?W = "example_world JNull (chatReply todo_json) Rejected"
  let ?v = "JObj [(ascii ''is_todo'', JBool True), (ascii ''title'', JStr (ascii ''buy onions'')),
                  (ascii ''when'', JNull), (ascii ''notes'', JNull)]"
  have run: "callAzureOpenAITodoAnalyzer ?W (ascii ''hello'') = Inr ?v"
    by (simp add: sample_defs)
  from analyzer_result_shape [OF run] obtain b t w n where
    "?v = JObj [(ascii ''is_todo'', JBool b), (ascii ''title'', t),
                (ascii ''when'', w), (ascii ''notes'', n)]
     \<and> t \<noteq> JUndefined \<and> w \<noteq> JUndefined \<and> n \<noteq> JUndefined"
    by blast
  then show ?thesis
    using run by blast
qed

section \<open>Properties of the handlers\<close>

text \<open>
  The three failures of the write that \<open>postTodoToNotion\<close> handles. In a request that
  reaches the write (the speech service gave a text that is not empty and the analyzer
  returned a task), when the credentials are missing, when the request to the service
  rejects, and when the service answers with a status that is not a success, the handler
  answers 200 with the summary and \<open>notionPosted\<close> false; when the service answers with a
  success, it answers 200 with the summary and \<open>notionPosted\<close> true. The request is sent
  only once the page's blocks are built (\<open>childrenBuilt\<close>).
\<close>

theorem notion_failure_not_fatal:
  assumes post: "req_method req = ascii ''POST''"
    and audio: "readRequest W req = Inr (Audio base64 sessionId)"
    and wav: "pcm16ToWavBuffer (kMaxLength W) (base64_decode W base64) (Some 16000) (Some 1)
                = Inr wavBuffer"
    and stt: "callAzureSpeechToText W wavBuffer = Inr recognizedText"
    and said: "recognizedText \<noteq> []"
    and analyzed: "callAzureOpenAITodoAnalyzer W recognizedText = Inr todo"
    and task: "truthy (member todo (ascii ''is_todo''))"
    and args: "args = \<lparr> arg_title = member todo (ascii ''title''),
                        arg_when = member todo (ascii ''when''),
                        arg_notes = member todo (ascii ''notes''),
                        arg_sourceText = recognizedText,
                        arg_sessionId = sessionId \<rparr>"
  shows "(unset (NOTION_API_KEY W) \<or> unset (NOTION_DATABASE_ID W) \<longrightarrow>
            fst (handler W req) = summary recognizedText todo False)
       \<and> (\<not> unset (NOTION_API_KEY W) \<and> \<not> unset (NOTION_DATABASE_ID W) \<and> childrenBuilt args
            \<and> fetch_notion W args = Rejected \<longrightarrow>
            fst (handler W req) = summary recognizedText todo False)
       \<and> (\<not> unset (NOTION_API_KEY W) \<and> \<not> unset (NOTION_DATABASE_ID W) \<and> childrenBuilt args
            \<and> fetch_notion W args = Response False body \<longrightarrow>
            fst (handler W req) = summary recognizedText todo False)
       \<and> (\<not> unset (NOTION_API_KEY W) \<and> \<not> unset (NOTION_DATABASE_ID W) \<and> childrenBuilt args
            \<and> fetch_notion W args = Response True body \<longrightarrow>
            fst (handler W req) = summary recognizedText todo True)
       \<and> (\<forall>posted. \<exists>json. summary recognizedText todo posted = Json 200 json
            \<and> member json (ascii ''notionPosted'') = JBool posted)"
proof -
  have run: "handler W req =
      (case postTodoToNotion W args of
         Inl err \<Rightarrow> (InternalServerError err,
                     [SpeechToText wavBuffer, TodoAnalyzer recognizedText, PostToNotion args])
       | Inr notionPosted \<Rightarrow> (summary recognizedText todo notionPosted,
                     [SpeechToText wavBuffer, TodoAnalyzer recognizedText, PostToNotion args]))"
    unfolding args using post audio wav stt said analyzed task
    by (simp add: handler_def Let_def)
  have shape: "\<exists>json. summary recognizedText todo posted = Json 200 json
      \<and> member json (ascii ''notionPosted'') = JBool posted" for posted
    by (simp add: summary_def ascii_def)
  show ?thesis
    unfolding run
    using shape
    by (simp add: postTodoToNotion_def)
qed

theorem notion_failure_not_fatal_witness:
  "fst (handler ((example_world (JObj [(ascii ''DisplayText'', JStr (ascii '' buy onions. ''))])
                   (chatReply todo_json) Rejected) \<lparr> NOTION_API_KEY := None \<rparr>)
          example_request)
     = summary (ascii ''buy onions.'')
         (JObj [(ascii ''is_todo'', JBool True), (ascii ''title'', JStr (ascii ''buy onions'')),
                (ascii ''when'', JNull), (ascii ''notes'', JNull)]) False
   \<and> fst (handler (example_world (JObj [(ascii ''DisplayText'', JStr (ascii '' buy onions. ''))])
                   (chatReply todo_json) Rejected)
          example_request)
     = summary (ascii ''buy onions.'')
         (JObj [(ascii ''is_todo'', JBool True), (ascii ''title'', JStr (ascii ''buy onions'')),
                (ascii ''when'', JNull), (ascii ''notes'', JNull)]) False
   \<and> fst (handler (example_world (JObj [(ascii ''DisplayText'', JStr (ascii '' buy onions. ''))])
                   (chatReply todo_json) (Response False None))
          example_request)
     = summary (ascii ''buy onions.'')
         (JObj [(ascii ''is_todo'', JBool True), (ascii ''title'', JStr (ascii ''buy onions'')),
                (ascii ''when'', JNull), (ascii ''notes'', JNull)]) False
   \<and> fst (handler (example_world (JObj [(ascii ''DisplayText'', JStr (ascii '' buy onions. ''))])
                   (chatReply todo_json) (Response True None))
          example_request)
     = summary (ascii ''buy onions.'')
         (JObj [(ascii ''is_todo'', JBool True), (ascii ''title'', JStr (ascii ''buy onions'')),
                (ascii ''when'', JNull), (ascii ''notes'', JNull)]) True"
proof -
  let ?stt = "JObj [(ascii ''DisplayText'', JStr (ascii '' buy onions. ''))]"
  let ?todo = "JObj [(ascii ''is_todo'', JBool True),
                     (ascii ''title'', JStr (ascii ''buy onions'')),
                     (ascii ''when'', JNull), (ascii ''notes'', JNull)]"
  let ?args = "\<lparr> arg_title = member ?todo (ascii ''title''),
                 arg_when = member ?todo (ascii ''when''),
                 arg_notes = member ?todo (ascii ''notes''),
                 arg_sourceText = ascii ''buy onions.'',
                 arg_sessionId = JNull \<rparr>"
  have post: "req_method example_request = ascii ''POST''"
    by (simp add: example_request_def)
  have audio: "readRequest (example_world ?stt (chatReply todo_json) n \<lparr> NOTION_API_KEY := k \<rparr>)
      example_request = Inr (Audio (ascii ''AQIDBA=='') JNull)" for n k
    by (simp add: readRequest_def example_request_def bindE_def getMember_def orElse_def
        ascii_def)
  have wav: "pcm16ToWavBuffer
      (kMaxLength (example_world ?stt (chatReply todo_json) n \<lparr> NOTION_API_KEY := k \<rparr>))
      (base64_decode (example_world ?stt (chatReply todo_json) n \<lparr> NOTION_API_KEY := k \<rparr>)
         (ascii ''AQIDBA=='')) (Some 16000) (Some 1) = Inr example_wav" for n k
    by (simp add: example_world_def example_decode_def pcm16ToWavBuffer_small encodable_def
        defaultTo_def example_wav_def)
  have stt: "callAzureSpeechToText
      (example_world ?stt (chatReply todo_json) n \<lparr> NOTION_API_KEY := k \<rparr>) example_wav
      = Inr (ascii ''buy onions.'')" for n k
    by (simp add: callAzureSpeechToText_def example_world_def unset_def bindE_def
        getMember_def orElse_def trim_def isWhiteSpace_def ascii_def)
  have said: "ascii ''buy onions.'' \<noteq> []"
    by (simp add: ascii_def)
  have analyzed: "callAzureOpenAITodoAnalyzer
      (example_world ?stt (chatReply todo_json) n \<lparr> NOTION_API_KEY := k \<rparr>)
      (ascii ''buy onions.'') = Inr ?todo" for n k
    by (simp add: sample_defs)
  have task: "truthy (member ?todo (ascii ''is_todo''))"
    by (simp add: ascii_def)
  have built: "childrenBuilt ?args"
    by (simp add: childrenBuilt_def ascii_def)
  have w: "example_world ?stt (chatReply todo_json) n \<lparr> NOTION_API_KEY := Some (ascii ''secret'') \<rparr>
      = example_world ?stt (chatReply todo_json) n" for n
    by (simp add: example_world_def)
  have a: "fst (handler (example_world ?stt (chatReply todo_json) Rejected
      \<lparr> NOTION_API_KEY := None \<rparr>) example_request)
      = summary (ascii ''buy onions.'') ?todo False"
    using notion_failure_not_fatal [where body = None,
        OF post
          audio [where n = Rejected and k = None]
          wav [where n = Rejected and k = None]
          stt [where n = Rejected and k = None]
          said
          analyzed [where n = Rejected and k = None]
          task refl]
    by (simp add: unset_def)
  have b: "fst (handler (example_world ?stt (chatReply todo_json) Rejected) example_request)
      = summary (ascii ''buy onions.'') ?todo False"
    using notion_failure_not_fatal [where body = None,
        OF post
          audio [where n = Rejected and k = "Some (ascii ''secret'')"]
          wav [where n = Rejected and k = "Some (ascii ''secret'')"]
          stt [where n = Rejected and k = "Some (ascii ''secret'')"]
          said
          analyzed [where n = Rejected and k = "Some (ascii ''secret'')"]
          task refl] built
    by (simp add: w) (simp add: example_world_def unset_def ascii_def)
  have c: "fst (handler (example_world ?stt (chatReply todo_json) (Response False None))
      example_request) = summary (ascii ''buy onions.'') ?todo False"
    using notion_failure_not_fatal [where body = None,
        OF post
          audio [where n = "Response False None" and k = "Some (ascii ''secret'')"]
          wav [where n = "Response False None" and k = "Some (ascii ''secret'')"]
          stt [where n = "Response False None" and k = "Some (ascii ''secret'')"]
          said
          analyzed [where n = "Response False None" and k = "Some (ascii ''secret'')"]
          task refl] built
    by (simp add: w) (simp add: example_world_def unset_def ascii_def)
  have d: "fst (handler (example_world ?stt (chatReply todo_json) (Response True None))
      example_request) = summary (ascii ''buy onions.'') ?todo True"
    using notion_failure_not_fatal [where body = None,
        OF post
          audio [where n = "Response True None" and k = "Some (ascii ''secret'')"]
          wav [where n = "Response True None" and k = "Some (ascii ''secret'')"]
          stt [where n = "Response True None" and k = "Some (ascii ''secret'')"]
          said
          analyzed [where n = "Response True None" and k = "Some (ascii ''secret'')"]
          task refl] built
    by (simp add: w) (simp add: example_world_def unset_def ascii_def)
  show ?thesis
    using a b c d by simp
qed

text \<open>
  C7: no failure of the write to the notes service fails the request; the handler answers
  200 with the summary and reports the outcome in \<open>notionPosted\<close>. The source breaks this
  on one path: the template literals that build the page's blocks stand before the \<open>try\<close>
  block of \<open>postTodoToNotion\<close>, so a session identifier (or notes) that does not convert to
  a string makes the write throw, and the handler answers 500, whatever the service would
  answer. Here the client sends \<open>{"audioBase64": "AQIDBA==", "sessionId": {"toString": 1}}\<close>,
  the utterance is a task and the service would answer with a success.
\<close>

theorem notion_block_building_fails_request:
  "handler
     (example_world (JObj [(ascii ''DisplayText'', JStr (ascii '' buy onions. ''))])
        (chatReply todo_json) (Response True None))
     \<lparr> req_method = ascii ''POST'',
       req_body = JObj [(ascii ''audioBase64'', JStr (ascii ''AQIDBA=='')),
                        (ascii ''sessionId'', JObj [(ascii ''toString'', JNum 1)])] \<rparr>
   = (InternalServerError TypeError,
      [SpeechToText example_wav,
       TodoAnalyzer (ascii ''buy onions.''),
       PostToNotion
         \<lparr> arg_title = JStr (ascii ''buy onions''),
           arg_when = JNull,
           arg_notes = JNull,
           arg_sourceText = ascii ''buy onions.'',
           arg_sessionId = JObj [(ascii ''toString'', JNum 1)] \<rparr>])"
proof -
  let ?W = "example_world (JObj [(ascii ''DisplayText'', JStr (ascii '' buy onions. ''))])
      (chatReply todo_json) (Response True None)"
  let ?sid = "JObj [(ascii ''toString'', JNum 1)]"
  let ?req = "\<lparr> req_method = ascii ''POST'',
      req_body = JObj [(ascii ''audioBase64'', JStr (ascii ''AQIDBA=='')),
                       (ascii ''sessionId'', ?sid)] \<rparr>"
  let ?todo = "JObj [(ascii ''is_todo'', JBool True),
                     (ascii ''title'', JStr (ascii ''buy onions'')),
                     (ascii ''when'', JNull), (ascii ''notes'', JNull)]"
  have audio: "readRequest ?W ?req = Inr (Audio (ascii ''AQIDBA=='') ?sid)"
    by (simp add: readRequest_def bindE_def getMember_def orElse_def ascii_def)
  have wav: "pcm16ToWavBuffer (kMaxLength ?W) (base64_decode ?W (ascii ''AQIDBA==''))
      (Some 16000) (Some 1) = Inr example_wav"
    by (simp add: example_world_def example_decode_def pcm16ToWavBuffer_small encodable_def
        defaultTo_def example_wav_def)
  have stt: "callAzureSpeechToText ?W example_wav = Inr (ascii ''buy onions.'')"
    by (simp add: callAzureSpeechToText_def example_world_def unset_def bindE_def
        getMember_def orElse_def trim_def isWhiteSpace_def ascii_def)
  have said: "ascii ''buy onions.'' \<noteq> []"
    by (simp add: ascii_def)
  have analyzed: "callAzureOpenAITodoAnalyzer ?W (ascii ''buy onions.'') = Inr ?todo"
    by (simp add: sample_defs)
  have post: "postTodoToNotion ?W
      \<lparr> arg_title = JStr (ascii ''buy onions''), arg_when = JNull, arg_notes = JNull,
        arg_sourceText = ascii ''buy onions.'', arg_sessionId = ?sid \<rparr> = Inl TypeError"
    by (simp add: postTodoToNotion_def childrenBuilt_def example_world_def unset_def
        ascii_def)
  show ?thesis
    using audio wav stt said analyzed post
    by (simp add: handler_def Let_def) (simp add: ascii_def)
qed

text \<open>
  C8: when the speech service answers with a result in which neither \<open>DisplayText\<close> nor
  \<open>Text\<close> holds a text, the two handlers diverge. \<open>callAzureSpeechToText\<close> of the
  spoken-reply handler returns the fixed Japanese sentence (eleven code units) as the
  recognized text, and that handler goes on to call the chat service with this sentence.
  \<open>callAzureSpeechToText\<close> of the TODO-extraction handler returns the empty string, and
  that handler goes on with the empty text to its 200 response.
\<close>

theorem stt_empty_text_divergence:
  assumes cfg: "\<not> unset (AZURE_SPEECH_KEY W)" "\<not> unset (AZURE_SPEECH_REGION W)"
    and fetch: "fetch_stt W wavBuffer = Response True (Some data)"
    and result: "\<not> nullish data"
    and empty: "\<not> truthy (member data (ascii ''DisplayText''))"
      "\<not> truthy (member data (ascii ''Text''))"
    and post: "req_method req = ascii ''POST''"
    and audio: "pocket_readRequest W req = Inr (Inr base64)"
      "readRequest W req = Inr (Audio base64 sessionId)"
    and wav: "pcm16ToWavBuffer (kMaxLength W) (base64_decode W base64) (Some 16000) (Some 1)
                = Inr wavBuffer"
  shows "pocket_callAzureSpeechToText W wavBuffer = Inr (JStr pocket_placeholder)
       \<and> length pocket_placeholder = 11
       \<and> (\<exists>response calls. pocket_handler W req =
             (response,
              SpeechToText wavBuffer # ChatCompletion (JStr pocket_placeholder) # calls))
       \<and> callAzureSpeechToText W wavBuffer = Inr []
       \<and> handler W req = (summary [] notTask False, [SpeechToText wavBuffer])"
proof -
  have p: "pocket_callAzureSpeechToText W wavBuffer = Inr (JStr pocket_placeholder)"
    using cfg fetch result empty
    by (simp add: pocket_callAzureSpeechToText_def bindE_def getMember_def orElse_def)
  have t: "callAzureSpeechToText W wavBuffer = Inr []"
    using cfg fetch result empty
    by (simp add: callAzureSpeechToText_def bindE_def getMember_def orElse_def trim_def)
  have ph: "\<exists>response calls. pocket_handler W req =
      (response, SpeechToText wavBuffer # ChatCompletion (JStr pocket_placeholder) # calls)"
    using post audio(1) wav p
    by (simp add: pocket_handler_def Let_def split: sum.split)
  have th: "handler W req = (summary [] notTask False, [SpeechToText wavBuffer])"
    using post audio(2) wav t
    by (simp add: handler_def Let_def)
  show ?thesis
    using p t ph th by (simp add: pocket_placeholder_def)
qed

theorem stt_empty_text_divergence_witness:
  "pocket_callAzureSpeechToText
     (example_world (JObj [(ascii ''RecognitionStatus'', JStr (ascii ''NoMatch''))])
        JNull Rejected) example_wav
     = Inr (JStr [12456, 12521, 12540, 12364, 30330, 29983, 12375, 12414, 12375, 12383, 12290])
   \<and> (\<exists>response calls.
        pocket_handler
          (example_world (JObj [(ascii ''RecognitionStatus'', JStr (ascii ''NoMatch''))])
             JNull Rejected) example_request
        = (response,
           SpeechToText example_wav
           # ChatCompletion
               (JStr [12456, 12521, 12540, 12364, 30330, 29983, 12375, 12414, 12375, 12383,
                      12290])
           # calls))
   \<and> callAzureSpeechToText
     (example_world (JObj [(ascii ''RecognitionStatus'', JStr (ascii ''NoMatch''))])
        JNull Rejected) example_wav
     = Inr []
   \<and> handler
     (example_world (JObj [(ascii ''RecognitionStatus'', JStr (ascii ''NoMatch''))])
        JNull Rejected) example_request
     = (summary [] notTask False, [SpeechToText example_wav])"
proof -
  let ?data = "JObj [(ascii ''RecognitionStatus'', JStr (ascii ''NoMatch''))]"
  let ?W = "example_world ?data JNull Rejected"
  have cfg: "\<not> unset (AZURE_SPEECH_KEY ?W)" "\<not> unset (AZURE_SPEECH_REGION ?W)"
    by (simp_all add: example_world_def unset_def ascii_def)
  have fetch: "fetch_stt ?W example_wav = Response True (Some ?data)"
    by (simp add: example_world_def)
  have result: "\<not> nullish ?data"
    by simp
  have empty: "\<not> truthy (member ?data (ascii ''DisplayText''))"
      "\<not> truthy (member ?data (ascii ''Text''))"
    by (simp_all add: ascii_def)
  have post: "req_method example_request = ascii ''POST''"
    by (simp add: example_request_def)
  have audio: "pocket_readRequest ?W example_request = Inr (Inr (ascii ''AQIDBA==''))"
      "readRequest ?W example_request = Inr (Audio (ascii ''AQIDBA=='') JNull)"
    by (simp_all add: pocket_readRequest_def readRequest_def example_request_def bindE_def
        getMember_def orElse_def ascii_def)
  have wav: "pcm16ToWavBuffer (kMaxLength ?W) (base64_decode ?W (ascii ''AQIDBA==''))
      (Some 16000) (Some 1) = Inr example_wav"
    by (simp add: example_world_def example_decode_def pcm16ToWavBuffer_small encodable_def
        defaultTo_def example_wav_def)
  show ?thesis
    using stt_empty_text_divergence [OF cfg fetch result empty post audio wav]
    by (simp add: pocket_placeholder_def)
qed

text \<open>
  C9: in a request whose recognized text is empty, the handler calls neither the analyzer
  nor the write to the notes service (the speech service is the only call), and it answers
  200 with \<open>recognizedText\<close> empty, \<open>todoTitle\<close>, \<open>todoWhen\<close> and \<open>todoNotes\<close> null and
  \<open>notionPosted\<close> false.
\<close>

theorem empty_text_response:
  assumes post: "req_method req = ascii ''POST''"
    and audio: "readRequest W req = Inr (Audio base64 sessionId)"
    and wav: "pcm16ToWavBuffer (kMaxLength W) (base64_decode W base64) (Some 16000) (Some 1)
                = Inr wavBuffer"
    and stt: "callAzureSpeechToText W wavBuffer = Inr []"
  shows "handler W req =
           (Json 200 (JObj [(ascii ''recognizedText'', JStr []),
                            (ascii ''todoTitle'', JNull),
                            (ascii ''todoWhen'', JNull),
                            (ascii ''todoNotes'', JNull),
                            (ascii ''notionPosted'', JBool False)]),
            [SpeechToText wavBuffer])"
  using assms
  by (simp add: handler_def Let_def summary_def notTask_def ascii_def)

theorem empty_text_response_witness:
  "handler (example_world (JObj [(ascii ''RecognitionStatus'', JStr (ascii ''NoMatch''))])
              JNull Rejected) example_request
     = (Json 200 (JObj [(ascii ''recognizedText'', JStr []),
                        (ascii ''todoTitle'', JNull),
                        (ascii ''todoWhen'', JNull),
                        (ascii ''todoNotes'', JNull),
                        (ascii ''notionPosted'', JBool False)]),
        [SpeechToText example_wav])"
proof -
  let ?data = "JObj [(ascii ''RecognitionStatus'', JStr (ascii ''NoMatch''))]"
  let ?W = "example_world ?data JNull Rejected"
  have post: "req_method example_request = ascii ''POST''"
    by (simp add: example_request_def)
  have audio: "readRequest ?W example_request = Inr (Audio (ascii ''AQIDBA=='') JNull)"
    by (simp add: readRequest_def example_request_def bindE_def getMember_def orElse_def
        ascii_def)
  have wav: "pcm16ToWavBuffer (kMaxLength ?W) (base64_decode ?W (ascii ''AQIDBA==''))
      (Some 16000) (Some 1) = Inr example_wav"
    by (simp add: example_world_def example_decode_def pcm16ToWavBuffer_small encodable_def
        defaultTo_def example_wav_def)
  have stt: "callAzureSpeechToText ?W example_wav = Inr []"
    by (simp add: callAzureSpeechToText_def example_world_def unset_def bindE_def
        getMember_def orElse_def trim_def ascii_def)
  show ?thesis
    by (rule empty_text_response [OF post audio wav stt])
qed

end
